theory Spec2Isabelle
  imports Main "HOL-Library.Word"
begin

section \<open>JavaScript strings\<close>

text \<open>
  A JavaScript string is a sequence of UTF-16 code units. ASCII literals of the source are
  written \<open>asc ''...''\<close>; characters beyond ASCII are given by their code units.
\<close>

type_synonym jschar = "16 word"
type_synonym jstring = "jschar list"

definition asc :: "string \<Rightarrow> jstring" where
  "asc s = map of_char s"

definition NL :: jschar where "NL = 0x0A"
definition LT :: jschar where "LT = 0x3C"
definition GT :: jschar where "GT = 0x3E"
definition AMP :: jschar where "AMP = 0x26"
definition NBSP :: jschar where "NBSP = 0xA0"
definition DOT :: jschar where "DOT = 0x2E"

text \<open>
  The code units that \<open>String.prototype.trim\<close> removes and that the regular expression
  class \<open>\s\<close> matches: WhiteSpace and LineTerminator of ECMAScript.
\<close>

definition isSpace :: "jschar \<Rightarrow> bool" where
  "isSpace c = (c = 0x09 \<or> c = 0x0A \<or> c = 0x0B \<or> c = 0x0C \<or> c = 0x0D \<or> c = 0x20
     \<or> c = 0xA0 \<or> c = 0x1680 \<or> (0x2000 \<le> c \<and> c \<le> 0x200A)
     \<or> c = 0x2028 \<or> c = 0x2029 \<or> c = 0x202F \<or> c = 0x205F \<or> c = 0x3000 \<or> c = 0xFEFF)"

text \<open>The class \<open>\d\<close>: the ten ASCII digits.\<close>

definition isDigit :: "jschar \<Rightarrow> bool" where
  "isDigit c = (0x30 \<le> c \<and> c \<le> 0x39)"

text \<open>The class \<open>[\<bullet>\-\*]\<close> of \<open>formatAnswer\<close>: U+2022, hyphen-minus, asterisk.\<close>

definition isBullet :: "jschar \<Rightarrow> bool" where
  "isBullet c = (c = 0x2022 \<or> c = 0x2D \<or> c = 0x2A)"

definition trimStart :: "jstring \<Rightarrow> jstring" where
  "trimStart s = dropWhile isSpace s"

definition trimEnd :: "jstring \<Rightarrow> jstring" where
  "trimEnd s = rev (dropWhile isSpace (rev s))"

definition trim :: "jstring \<Rightarrow> jstring" where
  "trim s = trimEnd (trimStart s)"

text \<open>\<open>s.split('\n')\<close>: the pieces between line feeds; the empty string gives one empty piece.\<close>

fun splitLines :: "jstring \<Rightarrow> jstring list" where
  "splitLines [] = [[]]"
| "splitLines (c # cs) =
     (if c = NL then [] # splitLines cs
      else (case splitLines cs of
              [] \<Rightarrow> [[c]]
            | l # ls \<Rightarrow> (c # l) # ls))"

text \<open>\<open>s.includes(t)\<close>: \<open>t\<close> occurs in \<open>s\<close> as a contiguous piece.\<close>

fun startsWith :: "jstring \<Rightarrow> jstring \<Rightarrow> bool" where
  "startsWith s [] = True"
| "startsWith [] (p # ps) = False"
| "startsWith (c # cs) (p # ps) = (c = p \<and> startsWith cs ps)"

fun includesStr :: "jstring \<Rightarrow> jstring \<Rightarrow> bool" where
  "includesStr [] t = startsWith [] t"
| "includesStr (c # cs) t = (startsWith (c # cs) t \<or> includesStr cs t)"

text \<open>Number-to-string conversion of a template literal, for integers.\<close>

fun showNat :: "nat \<Rightarrow> jstring" where
  "showNat n = (if n < 10 then [of_nat (48 + n)]
                else showNat (n div 10) @ [of_nat (48 + n mod 10)])"

declare showNat.simps [simp del]

definition showInt :: "int \<Rightarrow> jstring" where
  "showInt i = (if i < 0 then 0x2D # showNat (nat (- i)) else showNat (nat i))"

section \<open>escapeHtml\<close>

text \<open>
  \<open>escapeHtml(text)\<close> assigns \<open>text\<close> to the \<open>textContent\<close> of a fresh \<open>div\<close> and reads
  its \<open>innerHTML\<close> back. The serialisation of a text node by the HTML standard replaces
  \<open>&\<close>, U+00A0, \<open><\<close> and \<open>>\<close> by \<open>&amp;\<close>, \<open>&nbsp;\<close>, \<open>&lt;\<close> and \<open>&gt;\<close> and keeps every
  other code unit.
\<close>

definition escapeChar :: "jschar \<Rightarrow> jstring" where
  "escapeChar c =
     (if c = AMP then asc ''&amp;''
      else if c = NBSP then asc ''&nbsp;''
      else if c = LT then asc ''&lt;''
      else if c = GT then asc ''&gt;''
      else [c])"

definition escapeHtml :: "jstring \<Rightarrow> jstring" where
  "escapeHtml text = concat (map escapeChar text)"

section \<open>formatAnswer\<close>

text \<open>\<open>/^\d+\./.test(s)\<close>: one or more digits, then a period, at the start of \<open>s\<close>.\<close>

definition startsOrdinal :: "jstring \<Rightarrow> bool" where
  "startsOrdinal s =
     (takeWhile isDigit s \<noteq> [] \<and> startsWith (dropWhile isDigit s) [DOT])"

text \<open>\<open>/^[\<bullet>\-\*]/.test(s)\<close>.\<close>

definition startsBullet :: "jstring \<Rightarrow> bool" where
  "startsBullet s = (case s of [] \<Rightarrow> False | c # cs \<Rightarrow> isBullet c)"

text \<open>
  \<open>line.replace(/^\d+\.\s*/, '')\<close>: where the line starts with the marker, the digits, the
  period and the white space after it are removed; any other line is returned as it is.
\<close>

definition replaceOrdinal :: "jstring \<Rightarrow> jstring" where
  "replaceOrdinal line =
     (if startsOrdinal line then dropWhile isSpace (tl (dropWhile isDigit line)) else line)"

text \<open>\<open>line.replace(/^[\<bullet>\-\*]\s*/, '')\<close>.\<close>

definition replaceBullet :: "jstring \<Rightarrow> jstring" where
  "replaceBullet line =
     (if startsBullet line then dropWhile isSpace (tl line) else line)"

text \<open>\<open>answer.split('\n').filter(line => line.trim())\<close>: the lines that are not blank.\<close>

definition answerLines :: "jstring \<Rightarrow> jstring list" where
  "answerLines answer = filter (\<lambda>line. trim line \<noteq> []) (splitLines answer)"

definition orderedItem :: "jstring \<Rightarrow> jstring" where
  "orderedItem line = asc ''<li>'' @ escapeHtml (trim (replaceOrdinal line)) @ asc ''</li>''"

definition bulletItem :: "jstring \<Rightarrow> jstring" where
  "bulletItem line = asc ''<li>'' @ escapeHtml (trim (replaceBullet line)) @ asc ''</li>''"

definition proseParagraph :: "jstring \<Rightarrow> jstring" where
  "proseParagraph line = asc ''<p>'' @ escapeHtml line @ asc ''</p>''"

definition formatAnswer :: "jstring \<Rightarrow> jstring" where
  "formatAnswer answer =
     (let lines = answerLines answer;
          isNumberedList = list_ex (\<lambda>line. startsOrdinal (trim line)) lines
      in if isNumberedList
         then asc ''<ol>'' @ concat (map orderedItem lines) @ asc ''</ol>''
         else let isBulletList = list_ex (\<lambda>line. startsBullet (trim line)) lines
              in if isBulletList
                 then asc ''<ul>'' @ concat (map bulletItem lines) @ asc ''</ul>''
                 else concat (map proseParagraph lines))"

text \<open>
  The three rules of the rendering contract, as a format kind of the whole answer: the
  ordinal-marker rule first, then the bullet-marker rule, then prose.
\<close>

datatype format_kind = OrderedList | UnorderedList | Prose

definition formatKind :: "jstring list \<Rightarrow> format_kind" where
  "formatKind ls =
     (if list_ex (\<lambda>l. startsOrdinal (trim l)) ls then OrderedList
      else if list_ex (\<lambda>l. startsBullet (trim l)) ls then UnorderedList
      else Prose)"

text \<open>The text of a line after its ordinal marker, and after its bullet marker.\<close>

definition ordinalRest :: "jstring \<Rightarrow> jstring" where
  "ordinalRest l = dropWhile isSpace (tl (dropWhile isDigit l))"

definition bulletRest :: "jstring \<Rightarrow> jstring" where
  "bulletRest l = dropWhile isSpace (tl l)"

definition ex_ordered :: jstring where
  "ex_ordered = asc ''1. A'' @ [NL] @ asc ''Note''"

definition ex_bullets :: jstring where
  "ex_bullets = asc ''- A'' @ [NL] @ asc ''Note''"

definition ex_prose :: jstring where
  "ex_prose = asc ''A'' @ [NL] @ asc ''B''"

text \<open>Reading a decimal numeral back: the value of a digit, and of a string of digits.\<close>

definition digitValue :: "jschar \<Rightarrow> nat" where
  "digitValue c = unat c - 48"

definition readNat :: "jstring \<Rightarrow> nat" where
  "readNat s = foldl (\<lambda>acc c. 10 * acc + digitValue c) 0 s"

section \<open>createConfidenceBadge\<close>

text \<open>
  The confidence of an Answer is an integer from 0 to 100, so \<open>${confidence}\<close> is its
  decimal numeral.
\<close>

definition colorClass :: "jstring \<Rightarrow> jstring" where
  "colorClass label =
     (if label = asc ''high'' then asc ''confidence-high''
      else if label = asc ''medium'' then asc ''confidence-medium''
      else asc ''confidence-low'')"

definition icon :: "jstring \<Rightarrow> jstring" where
  "icon label =
     (if label = asc ''high'' then [0x2713]
      else if label = asc ''medium'' then asc ''~''
      else asc ''!'')"

definition createConfidenceBadge :: "int \<Rightarrow> jstring \<Rightarrow> jstring" where
  \<open>createConfidenceBadge confidence label =
     asc ''\<newline>        <div class="confidence-badge ''
     @ colorClass label
     @ asc (''">''
       @ ''\<newline>            <span class="confidence-icon">'')
     @ icon label
     @ asc (''</span>''
       @ ''\<newline>            <span class="confidence-text">Confidence: '')
     @ showInt confidence
     @ asc (''%</span>''
       @ ''\<newline>            <span class="confidence-label">('')
     @ label
     @ asc ('')</span>''
       @ ''\<newline>        </div>''
       @ ''\<newline>    '')\<close>

section \<open>createSourcesHtml\<close>

text \<open>
  A source of the response is a plain string (the old format) or an object whose fields
  \<open>text\<close>, \<open>document\<close> and \<open>type\<close>, in this order, may each be missing.
\<close>

datatype source =
    SrcString jstring
  | SrcObject "jstring option" "jstring option" "jstring option"

text \<open>\<open>typeof source === 'string' ? source : source.text\<close>; \<open>undefined\<close> is \<open>None\<close>.\<close>

fun sourceText :: "source \<Rightarrow> jstring option" where
  "sourceText (SrcString s) = Some s"
| "sourceText (SrcObject t d ty) = t"

text \<open>
  \<open>v || dflt\<close> on a string or \<open>undefined\<close>: the default replaces \<open>undefined\<close> and the empty
  string. A string primitive has no property \<open>document\<close> or \<open>type\<close>.
\<close>

fun orDefault :: "jstring option \<Rightarrow> jstring \<Rightarrow> jstring" where
  "orDefault None dflt = dflt"
| "orDefault (Some v) dflt = (if v = [] then dflt else v)"

fun sourceDocument :: "source \<Rightarrow> jstring" where
  "sourceDocument (SrcString s) = orDefault None (asc ''Unknown document'')"
| "sourceDocument (SrcObject t d ty) = orDefault d (asc ''Unknown document'')"

fun sourceDocType :: "source \<Rightarrow> jstring" where
  "sourceDocType (SrcString s) = orDefault None (asc ''procedure'')"
| "sourceDocType (SrcObject t d ty) = orDefault ty (asc ''procedure'')"

text \<open>
  \<open>escapeHtml\<close> of a value that may be \<open>undefined\<close>: the setter of \<open>textContent\<close> takes
  \<open>undefined\<close> as \<open>null\<close>, which leaves the element empty.
\<close>

fun escapeHtmlOpt :: "jstring option \<Rightarrow> jstring" where
  "escapeHtmlOpt None = []"
| "escapeHtmlOpt (Some text) = escapeHtml text"

text \<open>The callback of \<open>sources.map\<close>; \<open>docType\<close> is computed and not used.\<close>

definition sourceItem :: "nat \<Rightarrow> source \<Rightarrow> jstring" where
  \<open>sourceItem index source =
     (let text = sourceText source;
          document = sourceDocument source;
          docType = sourceDocType source
      in
       asc (''\<newline>            <div class="source-chunk">''
         @ ''\<newline>                <div class="source-chunk-header">''
         @ ''\<newline>                    <span class="source-chunk-label">Chunk '')
       @ showNat (index + 1)
       @ asc (''</span>''
         @ ''\<newline>                    <span class="source-document-name">'')
       @ [0xD83D, 0xDCC4]
       @ asc '' ''
       @ document
       @ asc (''</span>''
         @ ''\<newline>                </div>''
         @ ''\<newline>                <div class="source-chunk-text">'')
       @ escapeHtmlOpt text
       @ asc (''</div>''
         @ ''\<newline>            </div>''
         @ ''\<newline>        ''))\<close>

definition sourceItems :: "source list \<Rightarrow> jstring" where
  "sourceItems sources = concat (map (\<lambda>(index, source). sourceItem index source) (enumerate 0 sources))"

definition createSourcesHtml :: "source list \<Rightarrow> jstring" where
  \<open>createSourcesHtml sources =
     asc (''\<newline>        <div class="source-chunks">''
       @ ''\<newline>            <button class="source-toggle">''
       @ ''\<newline>                <span class="arrow">'')
     @ [0x25B6]
     @ asc (''</span>''
       @ ''\<newline>                View '')
     @ showNat (length sources)
     @ asc '' source ''
     @ (if length sources = 1 then asc ''chunk'' else asc ''chunks'')
     @ asc (''\<newline>            </button>''
       @ ''\<newline>            <div class="source-content">''
       @ ''\<newline>                '')
     @ sourceItems sources
     @ asc (''\<newline>            </div>''
       @ ''\<newline>        </div>''
       @ ''\<newline>    '')\<close>

text \<open>The tagged shape \<open>{text, document, type}\<close> with every field present.\<close>

record tagged_source =
  ts_text :: jstring
  ts_document :: jstring
  ts_type :: jstring

definition normalizeSource :: "source \<Rightarrow> tagged_source" where
  "normalizeSource source =
     \<lparr>ts_text = (case sourceText source of None \<Rightarrow> [] | Some t \<Rightarrow> t),
      ts_document = sourceDocument source,
      ts_type = sourceDocType source\<rparr>"

definition taggedObject :: "tagged_source \<Rightarrow> source" where
  "taggedObject n = SrcObject (Some (ts_text n)) (Some (ts_document n)) (Some (ts_type n))"

fun isTagged :: "source \<Rightarrow> bool" where
  "isTagged (SrcString s) = False"
| "isTagged (SrcObject t d ty) = (t \<noteq> None \<and> d \<noteq> None \<and> ty \<noteq> None)"

section \<open>The browser state\<close>

text \<open>
  What both pages share: the origin and address of the window, \<open>localStorage\<close>, and the
  requests handed to \<open>fetch\<close> so far. A request records its address, method and headers,
  and the object that \<open>JSON.stringify\<close> serialises as its body, as a list of fields.
\<close>

record request =
  req_url :: jstring
  req_method :: jstring
  req_headers :: "(jstring \<times> jstring) list"
  req_body :: "(jstring \<times> jstring) list"

record browser =
  origin :: jstring
  href :: jstring
  localStorage :: "jstring \<rightharpoonup> jstring"
  requests :: "request list"

text \<open>
  What awaiting \<open>fetch\<close> gives: a rejection, or a response with its status and the value of
  \<open>response.json()\<close> (\<open>None\<close> where the body is not JSON and the promise rejects).
\<close>

datatype 'body fetch_result = NetworkError | Response nat "'body option"

text \<open>\<open>response.ok\<close>: the status is in the range 200 to 299.\<close>

definition ok :: "nat \<Rightarrow> bool" where
  "ok status = (200 \<le> status \<and> status \<le> 299)"

section \<open>script.js: the chat page\<close>

text \<open>
  A message element of the chat: its class, the markup assigned to \<open>innerHTML\<close>, whether the
  click handler of the source toggle is attached, whether the source content has the class
  \<open>visible\<close>, and the text of the arrow.
\<close>

record message =
  className :: jstring
  innerHTML :: jstring
  sourceToggle :: bool
  sourceVisible :: bool
  arrow :: jstring

text \<open>
  The body of a successful \<open>/ask\<close> response, \<open>{answer, confidence, confidence_label,
  sources}\<close>; \<open>sources\<close> may be missing, and each source is a string or an object.
\<close>

record ask_body =
  answer :: jstring
  confidence :: int
  confidence_label :: jstring
  sources :: "source list option"

record page = browser +
  sessionToken :: "jstring option"
  currentUser :: "(jstring option \<times> jstring option) option"
  chatMessages :: "message list"
  questionValue :: jstring
  questionDisabled :: bool
  sendDisabled :: bool
  questionFocused :: bool
  loadingVisible :: bool

definition ASK_API_URL :: "jstring \<Rightarrow> jstring" where
  "ASK_API_URL org =
     (if includesStr org (asc ''localhost'') then asc ''/api/ask''
      else asc ''http://localhost:8000/api/ask'')"

text \<open>\<open>!v\<close> for a string or \<open>null\<close>: true of \<open>null\<close> and of the empty string.\<close>

fun falsy :: "jstring option \<Rightarrow> bool" where
  "falsy None = True"
| "falsy (Some v) = (v = [])"

definition checkAuthentication :: "page \<Rightarrow> page" where
  "checkAuthentication s =
     (let s1 = s\<lparr>sessionToken := localStorage s (asc ''stb_session_token'')\<rparr>;
          userName = localStorage s (asc ''stb_user_name'');
          userRole = localStorage s (asc ''stb_user_role'')
      in if falsy (sessionToken s1) then s1\<lparr>href := asc ''login.html''\<rparr>
         else s1\<lparr>currentUser := Some (userName, userRole)\<rparr>)"

definition setInputEnabled :: "bool \<Rightarrow> page \<Rightarrow> page" where
  "setInputEnabled enabled s = s\<lparr>questionDisabled := \<not> enabled, sendDisabled := \<not> enabled\<rparr>"

definition showLoading :: "page \<Rightarrow> page" where
  "showLoading s = s\<lparr>loadingVisible := True\<rparr>"

definition hideLoading :: "page \<Rightarrow> page" where
  "hideLoading s = s\<lparr>loadingVisible := False\<rparr>"

definition userMessageHtml :: "jstring \<Rightarrow> jstring" where
  \<open>userMessageHtml text =
     asc (''\<newline>        <div class="message-avatar">''
       @ ''\<newline>            <svg width="24" height="24" viewBox="0 0 24 24" fill="none">''
       @ ''\<newline>                <circle cx="12" cy="12" r="10" stroke="currentColor" stroke-width="2"/>''
       @ ''\<newline>                <circle cx="12" cy="10" r="3" fill="currentColor"/>''
       @ ''\<newline>                <path d="M6 20C6 16 8 14 12 14C16 14 18 16 18 20" stroke="currentColor" stroke-width="2" stroke-linecap="round"/>''
       @ ''\<newline>            </svg>''
       @ ''\<newline>        </div>''
       @ ''\<newline>        <div class="message-content">''
       @ ''\<newline>            <div class="message-text">''
       @ ''\<newline>                <p>'')
     @ escapeHtml text
     @ asc (''</p>''
       @ ''\<newline>            </div>''
       @ ''\<newline>        </div>''
       @ ''\<newline>    '')\<close>

definition addUserMessage :: "jstring \<Rightarrow> page \<Rightarrow> page" where
  "addUserMessage text s =
     s\<lparr>chatMessages := chatMessages s @
        [\<lparr>className = asc ''message user-message'', innerHTML = userMessageHtml text,
          sourceToggle = False, sourceVisible = False, arrow = []\<rparr>]\<rparr>"

definition errorMessageHtml :: "jstring \<Rightarrow> jstring" where
  \<open>errorMessageHtml message =
     asc (''\<newline>        <div class="message-avatar">''
       @ ''\<newline>            <svg width="24" height="24" viewBox="0 0 24 24" fill="none">''
       @ ''\<newline>                <circle cx="12" cy="12" r="10" stroke="currentColor" stroke-width="2"/>''
       @ ''\<newline>                <path d="M12 8V12" stroke="currentColor" stroke-width="2" stroke-linecap="round"/>''
       @ ''\<newline>                <circle cx="12" cy="16" r="1" fill="currentColor"/>''
       @ ''\<newline>            </svg>''
       @ ''\<newline>        </div>''
       @ ''\<newline>        <div class="message-content">''
       @ ''\<newline>            <div class="message-text">''
       @ ''\<newline>                <p style="color: #ef4444;">'')
     @ [0x26A0]
     @ [0xFE0F]
     @ asc '' ''
     @ escapeHtml message
     @ asc (''</p>''
       @ ''\<newline>            </div>''
       @ ''\<newline>        </div>''
       @ ''\<newline>    '')\<close>

definition addErrorMessage :: "jstring \<Rightarrow> page \<Rightarrow> page" where
  "addErrorMessage message s =
     s\<lparr>chatMessages := chatMessages s @
        [\<lparr>className = asc ''message assistant-message'', innerHTML = errorMessageHtml message,
          sourceToggle = False, sourceVisible = False, arrow = []\<rparr>]\<rparr>"

definition assistantMessageHtml :: "jstring \<Rightarrow> jstring \<Rightarrow> jstring \<Rightarrow> jstring" where
  \<open>assistantMessageHtml formattedAnswer confidenceBadge sourcesHtml =
     asc (''\<newline>        <div class="message-avatar">''
       @ ''\<newline>            <svg width="24" height="24" viewBox="0 0 24 24" fill="none">''
       @ ''\<newline>                <circle cx="12" cy="12" r="10" stroke="currentColor" stroke-width="2"/>''
       @ ''\<newline>                <path d="M8 14C8 14 9.5 16 12 16C14.5 16 16 14 16 14" stroke="currentColor" stroke-width="2" stroke-linecap="round"/>''
       @ ''\<newline>                <circle cx="9" cy="9" r="1.5" fill="currentColor"/>''
       @ ''\<newline>                <circle cx="15" cy="9" r="1.5" fill="currentColor"/>''
       @ ''\<newline>            </svg>''
       @ ''\<newline>        </div>''
       @ ''\<newline>        <div class="message-content">''
       @ ''\<newline>            <div class="message-text">''
       @ ''\<newline>                '')
     @ formattedAnswer
     @ asc (''\<newline>            </div>''
       @ ''\<newline>            '')
     @ confidenceBadge
     @ asc ''\<newline>            ''
     @ sourcesHtml
     @ asc (''\<newline>        </div>''
       @ ''\<newline>    '')\<close>

text \<open>\<open>sources && sources.length > 0\<close>.\<close>

fun hasSources :: "source list option \<Rightarrow> bool" where
  "hasSources None = False"
| "hasSources (Some srcs) = (length srcs > 0)"

definition sourcesHtml :: "source list option \<Rightarrow> jstring" where
  "sourcesHtml srcs =
     (case srcs of
        None \<Rightarrow> []
      | Some ss \<Rightarrow> (if hasSources srcs then createSourcesHtml ss else []))"

definition assistantMessage :: "jstring \<Rightarrow> int \<Rightarrow> jstring \<Rightarrow> source list option \<Rightarrow> message" where
  "assistantMessage ans conf label srcs =
     \<lparr>className = asc ''message assistant-message'',
      innerHTML = assistantMessageHtml (formatAnswer ans) (createConfidenceBadge conf label)
                    (sourcesHtml srcs),
      sourceToggle = hasSources srcs,
      sourceVisible = False,
      arrow = (if hasSources srcs then [0x25B6] else [])\<rparr>"

definition addAssistantMessage ::
  "jstring \<Rightarrow> int \<Rightarrow> jstring \<Rightarrow> source list option \<Rightarrow> page \<Rightarrow> page" where
  "addAssistantMessage ans conf label srcs s =
     s\<lparr>chatMessages := chatMessages s @ [assistantMessage ans conf label srcs]\<rparr>"


definition askRequest :: "page \<Rightarrow> jstring \<Rightarrow> request" where
  "askRequest s question =
     \<lparr>req_url = ASK_API_URL (origin s),
      req_method = asc ''POST'',
      req_headers =
        [(asc ''Content-Type'', asc ''application/json''),
         (asc ''Authorization'',
          asc ''Bearer '' @ (case sessionToken s of None \<Rightarrow> asc ''null'' | Some t \<Rightarrow> t))],
      req_body = [(asc ''question'', question)]\<rparr>"

text \<open>The \<open>catch\<close> block of \<open>sendQuestion\<close>.\<close>

definition sendQuestionCatch :: "page \<Rightarrow> page" where
  "sendQuestionCatch s =
     setInputEnabled True
       (addErrorMessage
          (asc ''Sorry, I encountered an error. Please make sure the backend server is running.'')
          (hideLoading s))"

text \<open>
  \<open>sendQuestion\<close>, with what the awaited \<open>fetch\<close> gives as its first argument: the request
  is recorded, then the function goes on from the response.
\<close>

definition sendQuestion :: "ask_body fetch_result \<Rightarrow> jstring \<Rightarrow> page \<Rightarrow> page" where
  "sendQuestion res question s =
     (let s1 = s\<lparr>requests := requests s @ [askRequest s question]\<rparr>
      in case res of
           NetworkError \<Rightarrow> sendQuestionCatch s1
         | Response status body \<Rightarrow>
             if status = 401
             then s1\<lparr>localStorage := Map.empty, href := asc ''login.html''\<rparr>
             else if \<not> ok status then sendQuestionCatch s1
             else (case body of
                     None \<Rightarrow> sendQuestionCatch s1
                   | Some data \<Rightarrow>
                       (setInputEnabled True
                          (addAssistantMessage (answer data) (confidence data)
                             (confidence_label data) (sources data) (hideLoading s1)))
                       \<lparr>questionFocused := True\<rparr>))"

definition handleSubmit :: "ask_body fetch_result \<Rightarrow> page \<Rightarrow> page" where
  "handleSubmit res s =
     (let question = trim (questionValue s)
      in if question = [] then s
         else sendQuestion res question
                (showLoading
                   (setInputEnabled False
                      ((addUserMessage question s)\<lparr>questionValue := []\<rparr>))))"

definition ex_sources :: "source list" where
  "ex_sources =
     [SrcString (asc ''a''),
      SrcObject (Some (asc ''b'')) (Some (asc ''Guide'')) (Some (asc ''procedure''))]"



section \<open>Escaped text\<close>

text \<open>
  A string starts with a character reference that \<open>escapeHtml\<close> writes; and every \<open>&\<close> of a
  string starts such a reference.
\<close>

definition isEntity :: "jstring \<Rightarrow> bool" where
  "isEntity s =
     (startsWith s (asc ''&amp;'') \<or> startsWith s (asc ''&nbsp;'')
      \<or> startsWith s (asc ''&lt;'') \<or> startsWith s (asc ''&gt;''))"

fun ampEscaped :: "jstring \<Rightarrow> bool" where
  "ampEscaped [] = True"
| "ampEscaped (c # cs) = ((if c = AMP then isEntity (c # cs) else True) \<and> ampEscaped cs)"

definition ex_text :: jstring where
  "ex_text = asc ''<b>Tom & Jerry</b>''"

section \<open>login.js: the login page\<close>

text \<open>
  The body of a \<open>/login\<close> response, \<open>{success, session_token, user: {name, role},
  message}\<close>, where every field but \<open>success\<close> may be missing.
\<close>

record login_body =
  success :: bool
  session_token :: "jstring option"
  user :: "(jstring option \<times> jstring option) option"
  message :: "jstring option"

text \<open>
  The login page: the two inputs, the button and its text, the message element (its text,
  its class \<open>visible\<close> and its three style properties), and the navigations scheduled by
  \<open>setTimeout\<close> with their delays.
\<close>

record login_page = browser +
  emailValue :: jstring
  passwordValue :: jstring
  emailDisabled :: bool
  passwordDisabled :: bool
  loginDisabled :: bool
  buttonText :: jstring
  errorText :: jstring
  errorVisible :: bool
  errorBackground :: jstring
  errorBorderColor :: jstring
  errorColor :: jstring
  timers :: "(nat \<times> jstring) list"

definition LOGIN_API_URL :: "jstring \<Rightarrow> jstring" where
  "LOGIN_API_URL org =
     (if includesStr org (asc ''localhost'') then asc ''/api/login''
      else asc ''http://localhost:8000/api/login'')"

definition checkExistingSession :: "login_page \<Rightarrow> login_page" where
  "checkExistingSession s =
     (if falsy (localStorage s (asc ''stb_session_token'')) then s
      else s\<lparr>href := asc ''index.html''\<rparr>)"

definition showError :: "jstring \<Rightarrow> login_page \<Rightarrow> login_page" where
  "showError msg s =
     s\<lparr>errorText := msg, errorVisible := True,
       errorBackground := asc ''rgba(239, 68, 68, 0.1)'',
       errorBorderColor := asc ''rgba(239, 68, 68, 0.3)'',
       errorColor := asc ''#ef4444''\<rparr>"

definition showSuccess :: "jstring \<Rightarrow> login_page \<Rightarrow> login_page" where
  "showSuccess msg s =
     s\<lparr>errorText := msg, errorVisible := True,
       errorBackground := asc ''rgba(16, 185, 129, 0.1)'',
       errorBorderColor := asc ''rgba(16, 185, 129, 0.3)'',
       errorColor := asc ''#10b981''\<rparr>"

definition hideError :: "login_page \<Rightarrow> login_page" where
  "hideError s = s\<lparr>errorVisible := False\<rparr>"

definition setFormEnabled :: "bool \<Rightarrow> login_page \<Rightarrow> login_page" where
  "setFormEnabled enabled s =
     s\<lparr>emailDisabled := \<not> enabled, passwordDisabled := \<not> enabled, loginDisabled := \<not> enabled,
       buttonText := (if enabled then asc ''Se connecter'' else asc ''Connexion...'')\<rparr>"

text \<open>\<open>localStorage.setItem(key, value)\<close>; a value that is \<open>undefined\<close> is stored as the string \<open>undefined\<close>.\<close>

definition setItem :: "jstring \<Rightarrow> jstring option \<Rightarrow> login_page \<Rightarrow> login_page" where
  "setItem key v s =
     s\<lparr>localStorage := (localStorage s)
         (key \<mapsto> (case v of None \<Rightarrow> asc ''undefined'' | Some x \<Rightarrow> x))\<rparr>"

definition loginRequest :: "login_page \<Rightarrow> jstring \<Rightarrow> jstring \<Rightarrow> request" where
  "loginRequest s email password =
     \<lparr>req_url = LOGIN_API_URL (origin s),
      req_method = asc ''POST'',
      req_headers = [(asc ''Content-Type'', asc ''application/json'')],
      req_body = [(asc ''email'', email), (asc ''password'', password)]\<rparr>"

text \<open>The \<open>catch\<close> block of \<open>handleLogin\<close>.\<close>

definition handleLoginCatch :: "login_page \<Rightarrow> login_page" where
  "handleLoginCatch s =
     setFormEnabled True
       (showError (asc ''Erreur de connexion. Veuillez r'' @ [0x00E9] @ asc ''essayer.'') s)"

text \<open>
  \<open>handleLogin\<close>, with what the awaited \<open>fetch\<close> gives as its first argument. Reading
  \<open>data.user.name\<close> where \<open>user\<close> is missing throws, after the token has been stored.
\<close>

definition handleLogin :: "login_body fetch_result \<Rightarrow> login_page \<Rightarrow> login_page" where
  "handleLogin res s =
     (let email = trim (emailValue s);
          password = passwordValue s
      in if email = [] \<or> password = []
         then showError (asc ''Veuillez remplir tous les champs'') s
         else
           let s1 = hideError (setFormEnabled False s);
               s2 = s1\<lparr>requests := requests s1 @ [loginRequest s1 email password]\<rparr>
           in case res of
                NetworkError \<Rightarrow> handleLoginCatch s2
              | Response status None \<Rightarrow> handleLoginCatch s2
              | Response status (Some data) \<Rightarrow>
                  if ok status \<and> success data
                  then
                    let s3 = setItem (asc ''stb_session_token'') (session_token data) s2
                    in (case user data of
                          None \<Rightarrow> handleLoginCatch s3
                        | Some (name, role) \<Rightarrow>
                            (showSuccess
                               (asc ''Connexion r'' @ [0x00E9] @ asc ''ussie! Redirection...'')
                               (setItem (asc ''stb_user_role'') role
                                  (setItem (asc ''stb_user_name'') name s3)))
                            \<lparr>timers := timers s3 @ [(1000, asc ''index.html'')]\<rparr>)
                  else
                    setFormEnabled True
                      (showError
                         (orDefault (message data) (asc ''Email ou mot de passe incorrect''))
                         s2))"

text \<open>The first scheduled navigation runs: its callback assigns \<open>window.location.href\<close>.\<close>

definition fireTimer :: "login_page \<Rightarrow> login_page" where
  "fireTimer s =
     (case timers s of
        [] \<Rightarrow> s
      | (delay, target) # rest \<Rightarrow> s\<lparr>href := target, timers := rest\<rparr>)"

section \<open>Example states\<close>

definition ex_question :: jstring where
  "ex_question = asc ''  Which documents are required?  ''"

definition ex_page :: page where
  "ex_page =
     \<lparr>origin = asc ''http://localhost:8000'',
      href = asc ''http://localhost:8000/index.html'',
      localStorage = [asc ''stb_session_token'' \<mapsto> asc ''tok-1'',
                      asc ''stb_user_name'' \<mapsto> asc ''Amira'',
                      asc ''stb_user_role'' \<mapsto> asc ''agent''],
      requests = [],
      sessionToken = None,
      currentUser = None,
      chatMessages = [],
      questionValue = ex_question,
      questionDisabled = False,
      sendDisabled = False,
      questionFocused = False,
      loadingVisible = False\<rparr>"

definition ex_blank_page :: page where
  "ex_blank_page = (checkAuthentication ex_page)\<lparr>questionValue := asc ''   ''\<rparr>"

definition ex_body :: ask_body where
  "ex_body =
     \<lparr>answer = ex_ordered, confidence = 87, confidence_label = asc ''high'',
      sources = Some ex_sources\<rparr>"

definition ex_login_page :: login_page where
  "ex_login_page =
     \<lparr>origin = asc ''http://localhost:8000'',
      href = asc ''http://localhost:8000/login.html'',
      localStorage = Map.empty,
      requests = [],
      emailValue = asc '' amira@stb.tn '',
      passwordValue = asc ''secret'',
      emailDisabled = False,
      passwordDisabled = False,
      loginDisabled = False,
      buttonText = asc ''Se connecter'',
      errorText = [],
      errorVisible = False,
      errorBackground = [],
      errorBorderColor = [],
      errorColor = [],
      timers = []\<rparr>"

definition ex_login_ok :: login_body where
  "ex_login_ok =
     \<lparr>success = True, session_token = Some (asc ''tok-1''),
      user = Some (Some (asc ''Amira''), Some (asc ''agent'')), message = None\<rparr>"

definition ex_login_refused :: login_body where
  "ex_login_refused =
     \<lparr>success = False, session_token = None, user = None,
      message = Some (asc ''Compte inconnu'')\<rparr>"

definition ex_signed_out_page :: page where
  "ex_signed_out_page = ex_page\<lparr>localStorage := Map.empty\<rparr>"

section \<open>Properties of formatAnswer\<close>

lemma isSpace_not_digit: "isDigit c \<Longrightarrow> \<not> isSpace c"
  unfolding isDigit_def isSpace_def
  by (auto simp: word_le_def word_less_def)

lemma DOT_not_space: "\<not> isSpace DOT"
  by (simp add: isSpace_def DOT_def)

lemma DOT_not_digit: "\<not> isDigit DOT"
  by (simp add: isDigit_def DOT_def)

lemma isBullet_not_space: "isBullet c \<Longrightarrow> \<not> isSpace c"
  unfolding isBullet_def isSpace_def by auto

lemma trimEnd_nonspace: "\<not> isSpace c \<Longrightarrow> trimEnd (xs @ c # ys) = xs @ c # trimEnd ys"
  by (simp add: trimEnd_def dropWhile_append3)

lemma trim_nonspace_head: "\<not> isSpace c \<Longrightarrow> trim (c # ys) = c # trimEnd ys"
  using trimEnd_nonspace [of c "[]" ys] by (simp add: trim_def trimStart_def)

lemma startsOrdinal_split:
  assumes "startsOrdinal l"
  obtains ds rest where "l = ds @ DOT # rest" "ds \<noteq> []" "\<forall>d\<in>set ds. isDigit d"
proof -
  from assms have a: "takeWhile isDigit l \<noteq> []" and b: "startsWith (dropWhile isDigit l) [DOT]"
    by (simp_all add: startsOrdinal_def)
  from b obtain rest where r: "dropWhile isDigit l = DOT # rest"
    by (cases "dropWhile isDigit l") auto
  have "l = takeWhile isDigit l @ DOT # rest"
    using takeWhile_dropWhile_id [of isDigit l] r by simp
  moreover have "\<forall>d\<in>set (takeWhile isDigit l). isDigit d"
    by (auto dest: set_takeWhileD)
  ultimately show thesis using a that by blast
qed

lemma startsOrdinal_digits:
  "ds \<noteq> [] \<Longrightarrow> \<forall>d\<in>set ds. isDigit d \<Longrightarrow> startsOrdinal (ds @ DOT # rest)"
  by (simp add: startsOrdinal_def takeWhile_append2 dropWhile_append2 DOT_not_digit)

lemma startsOrdinal_trim:
  assumes "startsOrdinal l" shows "startsOrdinal (trim l)"
proof -
  from assms obtain ds rest where l: "l = ds @ DOT # rest" and ne: "ds \<noteq> []"
    and dg: "\<forall>d\<in>set ds. isDigit d" by (rule startsOrdinal_split)
  from ne obtain d ds' where ds: "ds = d # ds'" by (cases ds) auto
  with dg have "\<not> isSpace d" by (simp add: isSpace_not_digit)
  then have "trimStart l = l" by (simp add: trimStart_def l ds)
  then have "trim l = ds @ DOT # trimEnd rest"
    by (simp add: trim_def l trimEnd_nonspace DOT_not_space)
  then show ?thesis using ne dg by (simp add: startsOrdinal_digits)
qed

lemma startsBullet_trim:
  assumes "startsBullet l" shows "startsBullet (trim l)"
proof -
  from assms obtain c cs where l: "l = c # cs" and b: "isBullet c"
    by (cases l) (auto simp: startsBullet_def)
  then have "trim l = c # trimEnd cs" by (simp add: trim_nonspace_head isBullet_not_space)
  then show ?thesis using b by (simp add: startsBullet_def)
qed

text \<open>
  Claim C2, as amended. The format is chosen once for the whole answer, by the three rules
  in their order: an ordered list if some non-blank line, trimmed, starts with digits and a
  period; else an unordered list if some non-blank line, trimmed, starts with a bullet
  character; else prose. In a list every non-blank line is one list item, whether it has a
  marker or not: a line that starts with the marker of the list loses the marker and the
  white space after it, a line without that marker keeps its trimmed text. In prose every
  non-blank line is one paragraph.
\<close>

theorem formatAnswer_format_rules:
  "(formatKind (answerLines ans) = OrderedList \<longrightarrow>
      formatAnswer ans =
        asc ''<ol>'' @ concat (map orderedItem (answerLines ans)) @ asc ''</ol>'')
   \<and> (formatKind (answerLines ans) = UnorderedList \<longrightarrow>
      formatAnswer ans =
        asc ''<ul>'' @ concat (map bulletItem (answerLines ans)) @ asc ''</ul>'')
   \<and> (formatKind (answerLines ans) = Prose \<longrightarrow>
      formatAnswer ans = concat (map proseParagraph (answerLines ans)))
   \<and> (startsOrdinal line \<longrightarrow>
      orderedItem line = asc ''<li>'' @ escapeHtml (trim (ordinalRest line)) @ asc ''</li>'')
   \<and> (\<not> startsOrdinal (trim line) \<longrightarrow>
      orderedItem line = asc ''<li>'' @ escapeHtml (trim line) @ asc ''</li>'')
   \<and> (startsBullet line \<longrightarrow>
      bulletItem line = asc ''<li>'' @ escapeHtml (trim (bulletRest line)) @ asc ''</li>'')
   \<and> (\<not> startsBullet (trim line) \<longrightarrow>
      bulletItem line = asc ''<li>'' @ escapeHtml (trim line) @ asc ''</li>'')"
proof -
  have kinds: "formatAnswer ans =
      (case formatKind (answerLines ans) of
         OrderedList \<Rightarrow> asc ''<ol>'' @ concat (map orderedItem (answerLines ans)) @ asc ''</ol>''
       | UnorderedList \<Rightarrow> asc ''<ul>'' @ concat (map bulletItem (answerLines ans)) @ asc ''</ul>''
       | Prose \<Rightarrow> concat (map proseParagraph (answerLines ans)))"
    by (simp add: formatAnswer_def formatKind_def Let_def)
  have o1: "startsOrdinal line \<Longrightarrow> replaceOrdinal line = ordinalRest line"
    by (simp add: replaceOrdinal_def ordinalRest_def)
  have o2: "\<not> startsOrdinal (trim line) \<Longrightarrow> replaceOrdinal line = line"
    using startsOrdinal_trim [of line] by (auto simp: replaceOrdinal_def)
  have b1: "startsBullet line \<Longrightarrow> replaceBullet line = bulletRest line"
    by (simp add: replaceBullet_def bulletRest_def)
  have b2: "\<not> startsBullet (trim line) \<Longrightarrow> replaceBullet line = line"
    using startsBullet_trim [of line] by (auto simp: replaceBullet_def)
  show ?thesis
    using kinds o1 o2 b1 b2 by (simp add: orderedItem_def bulletItem_def)
qed

theorem formatAnswer_format_rules_witness:
  "formatKind (answerLines ex_ordered) = OrderedList
   \<and> formatAnswer ex_ordered = asc ''<ol><li>A</li><li>Note</li></ol>''
   \<and> formatKind (answerLines ex_bullets) = UnorderedList
   \<and> formatAnswer ex_bullets = asc ''<ul><li>A</li><li>Note</li></ul>''
   \<and> formatKind (answerLines ex_prose) = Prose
   \<and> formatAnswer ex_prose = asc ''<p>A</p><p>B</p>''"
proof -
  have k1: "formatKind (answerLines ex_ordered) = OrderedList" by code_simp
  have k2: "formatKind (answerLines ex_bullets) = UnorderedList" by code_simp
  have k3: "formatKind (answerLines ex_prose) = Prose" by code_simp
  have l1: "answerLines ex_ordered = [asc ''1. A'', asc ''Note'']" by code_simp
  have l2: "answerLines ex_bullets = [asc ''- A'', asc ''Note'']" by code_simp
  have l3: "answerLines ex_prose = [asc ''A'', asc ''B'']" by code_simp
  have s1: "startsOrdinal (asc ''1. A'')" "\<not> startsOrdinal (trim (asc ''Note''))" by code_simp+
  have s2: "startsBullet (asc ''- A'')" "\<not> startsBullet (trim (asc ''Note''))" by code_simp+
  have e1: "asc ''<li>'' @ escapeHtml (trim (ordinalRest (asc ''1. A''))) @ asc ''</li>'' = asc ''<li>A</li>''" by code_simp
  have e2: "asc ''<li>'' @ escapeHtml (trim (asc ''Note'')) @ asc ''</li>'' = asc ''<li>Note</li>''" by code_simp
  have e3: "asc ''<li>'' @ escapeHtml (trim (bulletRest (asc ''- A''))) @ asc ''</li>'' = asc ''<li>A</li>''" by code_simp
  have c1: "asc ''<ol>'' @ asc ''<li>A</li>'' @ asc ''<li>Note</li>'' @ asc ''</ol>'' = asc ''<ol><li>A</li><li>Note</li></ol>''" by code_simp
  have c2: "asc ''<ul>'' @ asc ''<li>A</li>'' @ asc ''<li>Note</li>'' @ asc ''</ul>'' = asc ''<ul><li>A</li><li>Note</li></ul>''" by code_simp
  have c3: "concat (map proseParagraph [asc ''A'', asc ''B'']) = asc ''<p>A</p><p>B</p>''" by code_simp
  show ?thesis
    using formatAnswer_format_rules [of ex_ordered "asc ''1. A''"]
      formatAnswer_format_rules [of ex_ordered "asc ''Note''"]
      formatAnswer_format_rules [of ex_bullets "asc ''- A''"]
      formatAnswer_format_rules [of ex_bullets "asc ''Note''"]
      formatAnswer_format_rules [of ex_prose "asc ''A''"]
      k1 k2 k3 l1 l2 l3 s1 s2 e1 e2 e3 c1 c2 c3
    by simp
qed

text \<open>
  Claim C2 as stated says that exactly the lines starting with a marker render as list
  items. The line \<open>Steps:\<close> has no marker and renders as a list item, since the line after it
  makes the answer an ordered list.
\<close>

theorem formatAnswer_marker_lines_counterexample:
  "formatAnswer (asc ''Steps:'' @ [NL] @ asc ''1. A'') = asc ''<ol><li>Steps:</li><li>A</li></ol>''
   \<and> \<not> startsOrdinal (asc ''Steps:'') \<and> \<not> startsBullet (asc ''Steps:'')"
  by code_simp


section \<open>Properties of createConfidenceBadge\<close>

lemma digit_unat: "n < 10 \<Longrightarrow> unat (of_nat (48 + n) :: jschar) = 48 + n"
  by (simp add: unat_of_nat del: of_nat_add)

lemma readNat_showNat: "readNat (showNat n) = n"
proof (induction n rule: showNat.induct)
  case (1 n)
  show ?case
  proof (cases "n < 10")
    case True
    then show ?thesis
      by (subst showNat.simps) (simp add: readNat_def digitValue_def digit_unat del: of_nat_add)
  next
    case False
    with 1 have ih: "readNat (showNat (n div 10)) = n div 10" by simp
    have m: "n mod 10 < 10" by simp
    have "readNat (showNat n) = 10 * readNat (showNat (n div 10)) + n mod 10"
      using False digit_unat [OF m]
      by (subst showNat.simps) (simp add: readNat_def digitValue_def del: of_nat_add)
    with ih show ?thesis by simp
  qed
qed

lemma label_distinct:
  "asc ''medium'' \<noteq> asc ''high''" "asc ''low'' \<noteq> asc ''high''"
  "asc ''low'' \<noteq> asc ''medium''"
  by (simp_all add: asc_def)

lemma colorClass_values:
  "colorClass (asc ''high'') = asc ''confidence-high''"
  "colorClass (asc ''medium'') = asc ''confidence-medium''"
  "colorClass (asc ''low'') = asc ''confidence-low''"
  by (simp_all add: colorClass_def label_distinct)

lemma icon_values:
  "icon (asc ''high'') = [0x2713]"
  "icon (asc ''medium'') = asc ''~''"
  "icon (asc ''low'') = asc ''!''"
  by (simp_all add: icon_def label_distinct)

lemma colorClass_distinct:
  "distinct [colorClass (asc ''high''), colorClass (asc ''medium''), colorClass (asc ''low'')]"
  by (simp add: colorClass_values) (simp add: asc_def)

lemma icon_distinct:
  "distinct [icon (asc ''high''), icon (asc ''medium''), icon (asc ''low'')]"
  by (simp add: icon_values) (simp add: asc_def)

lemma showInt_nonneg: "0 \<le> c \<Longrightarrow> showInt c = showNat (nat c) \<and> readNat (showInt c) = nat c"
  by (simp add: showInt_def readNat_showNat)

text \<open>
  Claim C8. Each of the labels \<open>high\<close>, \<open>medium\<close> and \<open>low\<close> selects its own style class and
  icon: \<open>confidence-high\<close> with U+2713, \<open>confidence-medium\<close> with \<open>~\<close>, \<open>confidence-low\<close> with
  \<open>!\<close>. The badge shows \<open>Confidence: \<close>, the decimal numeral of the confidence and \<open>%\<close>, then
  the label in parentheses; the numeral reads back as the confidence.
\<close>

theorem createConfidenceBadge_styles:
  \<open>createConfidenceBadge c (asc ''high'') =
       asc ''\<newline>        <div class="confidence-badge ''
       @ asc ''confidence-high''
       @ asc (''">''
         @ ''\<newline>            <span class="confidence-icon">'')
       @ [0x2713]
       @ asc (''</span>''
         @ ''\<newline>            <span class="confidence-text">Confidence: '')
       @ showInt c
       @ asc (''%</span>''
         @ ''\<newline>            <span class="confidence-label">('')
       @ asc ''high''
       @ asc ('')</span>''
         @ ''\<newline>        </div>''
         @ ''\<newline>    '')
   \<and> createConfidenceBadge c (asc ''medium'') =
       asc ''\<newline>        <div class="confidence-badge ''
       @ asc ''confidence-medium''
       @ asc (''">''
         @ ''\<newline>            <span class="confidence-icon">'')
       @ asc ''~''
       @ asc (''</span>''
         @ ''\<newline>            <span class="confidence-text">Confidence: '')
       @ showInt c
       @ asc (''%</span>''
         @ ''\<newline>            <span class="confidence-label">('')
       @ asc ''medium''
       @ asc ('')</span>''
         @ ''\<newline>        </div>''
         @ ''\<newline>    '')
   \<and> createConfidenceBadge c (asc ''low'') =
       asc ''\<newline>        <div class="confidence-badge ''
       @ asc ''confidence-low''
       @ asc (''">''
         @ ''\<newline>            <span class="confidence-icon">'')
       @ asc ''!''
       @ asc (''</span>''
         @ ''\<newline>            <span class="confidence-text">Confidence: '')
       @ showInt c
       @ asc (''%</span>''
         @ ''\<newline>            <span class="confidence-label">('')
       @ asc ''low''
       @ asc ('')</span>''
         @ ''\<newline>        </div>''
         @ ''\<newline>    '')
   \<and> distinct [colorClass (asc ''high''), colorClass (asc ''medium''), colorClass (asc ''low'')]
   \<and> distinct [icon (asc ''high''), icon (asc ''medium''), icon (asc ''low'')]
   \<and> (0 \<le> c \<longrightarrow> showInt c = showNat (nat c) \<and> readNat (showInt c) = nat c)\<close>
  by (intro conjI;
      (rule colorClass_distinct | rule icon_distinct | (rule impI, erule showInt_nonneg)
       | simp only: createConfidenceBadge_def colorClass_values icon_values))

theorem createConfidenceBadge_styles_witness:
  \<open>(0::int) \<le> 87 \<and> readNat (showInt 87) = 87 \<and> showInt 87 = asc ''87''
   \<and> createConfidenceBadge 87 (asc ''high'') =
       asc ''\<newline>        <div class="confidence-badge ''
       @ asc ''confidence-high''
       @ asc (''">''
         @ ''\<newline>            <span class="confidence-icon">'')
       @ [0x2713]
       @ asc (''</span>''
         @ ''\<newline>            <span class="confidence-text">Confidence: '')
       @ showInt 87
       @ asc (''%</span>''
         @ ''\<newline>            <span class="confidence-label">('')
       @ asc ''high''
       @ asc ('')</span>''
         @ ''\<newline>        </div>''
         @ ''\<newline>    '')\<close>
proof -
  have h: "showInt 87 = asc ''87''" by code_simp
  have p: "(0::int) \<le> 87" by simp
  have "readNat (showInt 87) = nat 87"
    using createConfidenceBadge_styles [of 87] p by blast
  then have r: "readNat (showInt 87) = 87" by simp
  show ?thesis
    by (intro conjI, rule p, rule r, rule h,
        rule createConfidenceBadge_styles [of 87, THEN conjunct1])
qed

section \<open>Properties of createSourcesHtml\<close>

lemma sourceItems_nth:
  "sourceItems srcs = concat (map (\<lambda>i. sourceItem i (srcs ! i)) [0..<length srcs])"
proof -
  have "map (\<lambda>(index, source). sourceItem index source) (zip [0..<length srcs] srcs)
        = map (\<lambda>i. sourceItem i (srcs ! i)) [0..<length srcs]"
    by (rule nth_equalityI) simp_all
  then show ?thesis by (simp add: sourceItems_def enumerate_eq_zip)
qed

lemma orDefault_nonempty: "dflt \<noteq> [] \<Longrightarrow> orDefault v dflt \<noteq> []"
  by (cases v) simp_all







text \<open>
  Claim C3, as amended. Sources are not normalized before they reach
  \<open>createSourcesHtml\<close>: it takes each source as a plain string or as an object and reduces
  it itself to a text, a document name and a type. Every source renders exactly as its
  tagged form \<open>{text, document, type}\<close> does, where a plain string \<open>s\<close> has the tagged form
  \<open>{text: s, document: 'Unknown document', type: 'procedure'}\<close>; the type is never rendered.
\<close>

theorem createSourcesHtml_normal_form:
  "sourceItem i src = sourceItem i (taggedObject (normalizeSource src))
   \<and> isTagged (taggedObject (normalizeSource src))
   \<and> createSourcesHtml srcs
       = createSourcesHtml (map (\<lambda>s. taggedObject (normalizeSource s)) srcs)
   \<and> normalizeSource (SrcString s)
       = \<lparr>ts_text = s, ts_document = asc ''Unknown document'', ts_type = asc ''procedure''\<rparr>
   \<and> sourceItem i (SrcObject t d ty) = sourceItem i (SrcObject t d ty')"
proof -
  have nonempty: "asc ''Unknown document'' \<noteq> []" by (simp add: asc_def)
  have doc: "sourceDocument (taggedObject (normalizeSource x)) = sourceDocument x" for x
    using nonempty
    by (cases x) (simp_all add: taggedObject_def normalizeSource_def orDefault_nonempty)
  have etext: "escapeHtmlOpt (sourceText (taggedObject (normalizeSource x)))
             = escapeHtmlOpt (sourceText x)" for x
    by (cases x) (auto simp: taggedObject_def normalizeSource_def escapeHtml_def split: option.splits)
  have item: "sourceItem j x = sourceItem j (taggedObject (normalizeSource x))" for j x
    by (simp only: sourceItem_def Let_def doc etext)
  have items: "sourceItems srcs = sourceItems (map (\<lambda>s. taggedObject (normalizeSource s)) srcs)"
  proof -
    have "map (\<lambda>i. sourceItem i (srcs ! i)) [0..<length srcs]
          = map (\<lambda>i. sourceItem i (map (\<lambda>s. taggedObject (normalizeSource s)) srcs ! i))
              [0..<length srcs]"
      by (rule map_cong) (simp_all add: item [symmetric])
    then show ?thesis by (simp only: sourceItems_nth length_map)
  qed
  have whole: "createSourcesHtml srcs
       = createSourcesHtml (map (\<lambda>s. taggedObject (normalizeSource s)) srcs)"
    using items by (simp only: createSourcesHtml_def length_map)
  have ty: "sourceItem i (SrcObject t d ty) = sourceItem i (SrcObject t d ty')"
    by (simp only: sourceItem_def Let_def sourceText.simps sourceDocument.simps)
  show ?thesis
    using item [of i src] whole ty
    by (simp add: taggedObject_def normalizeSource_def)
qed

theorem createSourcesHtml_normal_form_witness:
  "sourceItem 0 (SrcString (asc ''a''))
     = sourceItem 0 (SrcObject (Some (asc ''a'')) (Some (asc ''Unknown document''))
         (Some (asc ''procedure'')))
   \<and> createSourcesHtml ex_sources
       = createSourcesHtml (map (\<lambda>s. taggedObject (normalizeSource s)) ex_sources)"
proof -
  have n: "taggedObject (normalizeSource (SrcString (asc ''a'')))
           = SrcObject (Some (asc ''a'')) (Some (asc ''Unknown document''))
               (Some (asc ''procedure''))"
    by (simp add: taggedObject_def normalizeSource_def)
  show ?thesis
    using createSourcesHtml_normal_form [of 0 "SrcString (asc ''a'')" ex_sources] n
    by (simp only:)
qed

text \<open>
  Claim C3 as stated says that no operation after the boundary handles two source
  representations. \<open>createSourcesHtml\<close> renders the response's sources as they arrive: a
  plain string, which is not in the tagged shape, and an object.
\<close>

theorem createSourcesHtml_two_shapes_counterexample:
  \<open>\<not> isTagged (SrcString (asc ''a''))
   \<and> sourceItems ex_sources =
       asc (''\<newline>            <div class="source-chunk">''
         @ ''\<newline>                <div class="source-chunk-header">''
         @ ''\<newline>                    <span class="source-chunk-label">Chunk '')
       @ asc ''1''
       @ asc (''</span>''
         @ ''\<newline>                    <span class="source-document-name">'')
       @ [0xD83D, 0xDCC4]
       @ asc '' ''
       @ asc ''Unknown document''
       @ asc (''</span>''
         @ ''\<newline>                </div>''
         @ ''\<newline>                <div class="source-chunk-text">'')
       @ asc ''a''
       @ asc (''</div>''
         @ ''\<newline>            </div>''
         @ ''\<newline>        '')
     @
       asc (''\<newline>            <div class="source-chunk">''
         @ ''\<newline>                <div class="source-chunk-header">''
         @ ''\<newline>                    <span class="source-chunk-label">Chunk '')
       @ asc ''2''
       @ asc (''</span>''
         @ ''\<newline>                    <span class="source-document-name">'')
       @ [0xD83D, 0xDCC4]
       @ asc '' ''
       @ asc ''Guide''
       @ asc (''</span>''
         @ ''\<newline>                </div>''
         @ ''\<newline>                <div class="source-chunk-text">'')
       @ asc ''b''
       @ asc (''</div>''
         @ ''\<newline>            </div>''
         @ ''\<newline>        '')\<close>
  by code_simp

section \<open>Properties of escapeHtml\<close>

lemma startsWith_append: "startsWith s p \<Longrightarrow> startsWith (s @ t) p"
  by (induction s p rule: startsWith.induct) simp_all

lemma isEntity_append: "isEntity s \<Longrightarrow> isEntity (s @ t)"
  by (auto simp: isEntity_def startsWith_append)

lemma ampEscaped_append: "ampEscaped xs \<Longrightarrow> ampEscaped ys \<Longrightarrow> ampEscaped (xs @ ys)"
proof (induction xs)
  case Nil
  then show ?case by simp
next
  case (Cons c cs)
  then show ?case using isEntity_append [of "c # cs" ys] by (auto split: if_splits)
qed

lemma ampEscaped_no_amp: "AMP \<notin> set xs \<Longrightarrow> ampEscaped xs"
  by (induction xs) auto

lemma ampEscaped_escapeChar: "ampEscaped (escapeChar c)"
  by (simp add: escapeChar_def asc_def isEntity_def AMP_def NBSP_def LT_def GT_def)

lemma count_escapeChar: "count_list (escapeChar c) LT = 0" "count_list (escapeChar c) GT = 0"
  by (simp_all add: escapeChar_def asc_def AMP_def NBSP_def LT_def GT_def)

lemma ampEscaped_escapeHtml: "ampEscaped (escapeHtml t)"
  by (induction t) (simp_all add: escapeHtml_def ampEscaped_append ampEscaped_escapeChar)

lemma count_escapeHtml: "count_list (escapeHtml t) LT = 0" "count_list (escapeHtml t) GT = 0"
  by (induction t) (simp_all add: escapeHtml_def count_escapeChar)

lemma ampEscaped_escapeHtmlOpt: "ampEscaped (escapeHtmlOpt t)"
  by (cases t) (simp_all add: ampEscaped_escapeHtml)

lemma digit_not_markup:
  assumes "n < 10"
  shows "(of_nat (48 + n) :: jschar) \<noteq> AMP"
proof
  assume "(of_nat (48 + n) :: jschar) = AMP"
  then have "unat (of_nat (48 + n) :: jschar) = unat AMP" by simp
  then show False using digit_unat [OF assms] by (simp add: AMP_def)
qed

lemma showNat_no_amp: "AMP \<notin> set (showNat n)"
proof (induction n rule: showNat.induct)
  case (1 n)
  show ?case
  proof (cases "n < 10")
    case True
    then show ?thesis
      using digit_not_markup [of n] by (subst showNat.simps) (simp del: of_nat_add)
  next
    case False
    have "n mod 10 < 10" by simp
    then have "(of_nat (48 + n mod 10) :: jschar) \<noteq> AMP" by (rule digit_not_markup)
    with 1 False show ?thesis by (subst showNat.simps) (simp del: of_nat_add)
  qed
qed

lemma count_concat_const:
  "(\<And>x. x \<in> set xs \<Longrightarrow> count_list (f x) c = k)
   \<Longrightarrow> count_list (concat (map f xs)) c = k * length xs"
  by (induction xs) simp_all

lemma ampEscaped_concat:
  "(\<And>x. x \<in> set xs \<Longrightarrow> ampEscaped (f x)) \<Longrightarrow> ampEscaped (concat (map f xs))"
  by (induction xs) (simp_all add: ampEscaped_append)

lemma tag_counts:
  "count_list (asc ''<li>'') LT = 1" "count_list (asc ''</li>'') LT = 1"
  "count_list (asc ''<li>'') GT = 1" "count_list (asc ''</li>'') GT = 1"
  "count_list (asc ''<ol>'') LT = 1" "count_list (asc ''</ol>'') LT = 1"
  "count_list (asc ''<ol>'') GT = 1" "count_list (asc ''</ol>'') GT = 1"
  "count_list (asc ''<ul>'') LT = 1" "count_list (asc ''</ul>'') LT = 1"
  "count_list (asc ''<ul>'') GT = 1" "count_list (asc ''</ul>'') GT = 1"
  "count_list (asc ''<p>'') LT = 1" "count_list (asc ''</p>'') LT = 1"
  "count_list (asc ''<p>'') GT = 1" "count_list (asc ''</p>'') GT = 1"
  by (simp_all add: asc_def LT_def GT_def)

lemma tag_amp:
  "ampEscaped (asc ''<li>'')" "ampEscaped (asc ''</li>'')"
  "ampEscaped (asc ''<ol>'')" "ampEscaped (asc ''</ol>'')"
  "ampEscaped (asc ''<ul>'')" "ampEscaped (asc ''</ul>'')"
  "ampEscaped (asc ''<p>'')" "ampEscaped (asc ''</p>'')"
  by (simp_all add: asc_def AMP_def)

lemma item_counts:
  "count_list (orderedItem l) LT = 2" "count_list (orderedItem l) GT = 2"
  "count_list (bulletItem l) LT = 2" "count_list (bulletItem l) GT = 2"
  "count_list (proseParagraph l) LT = 2" "count_list (proseParagraph l) GT = 2"
  by (simp_all add: orderedItem_def bulletItem_def proseParagraph_def tag_counts count_escapeHtml)

lemma item_amp:
  "ampEscaped (orderedItem l)" "ampEscaped (bulletItem l)" "ampEscaped (proseParagraph l)"
  by (simp_all add: orderedItem_def bulletItem_def proseParagraph_def tag_amp
        ampEscaped_append ampEscaped_escapeHtml)

lemma formatAnswer_kind:
  "formatAnswer a =
     (case formatKind (answerLines a) of
        OrderedList \<Rightarrow> asc ''<ol>'' @ concat (map orderedItem (answerLines a)) @ asc ''</ol>''
      | UnorderedList \<Rightarrow> asc ''<ul>'' @ concat (map bulletItem (answerLines a)) @ asc ''</ul>''
      | Prose \<Rightarrow> concat (map proseParagraph (answerLines a)))"
  by (simp add: formatAnswer_def formatKind_def Let_def)

lemma formatAnswer_count:
  "count_list (formatAnswer a) LT
     = 2 * length (answerLines a) + (if formatKind (answerLines a) = Prose then 0 else 2)"
  "count_list (formatAnswer a) GT
     = 2 * length (answerLines a) + (if formatKind (answerLines a) = Prose then 0 else 2)"
  by (cases "formatKind (answerLines a)";
      simp add: formatAnswer_kind tag_counts count_concat_const [where k = 2] item_counts)+

lemma formatAnswer_amp: "ampEscaped (formatAnswer a)"
  by (cases "formatKind (answerLines a)")
     (simp_all add: formatAnswer_kind tag_amp ampEscaped_append ampEscaped_concat item_amp)

lemma userMessageHtml_count:
  "count_list (userMessageHtml t) LT = count_list (userMessageHtml []) LT"
  "count_list (userMessageHtml t) GT = count_list (userMessageHtml []) GT"
  by (simp_all add: userMessageHtml_def count_escapeHtml)

lemma userMessageHtml_amp: "ampEscaped (userMessageHtml t)"
  unfolding userMessageHtml_def
  by (intro ampEscaped_append ampEscaped_escapeHtml; code_simp)

lemma sourceItem_count:
  "count_list (sourceItem i (SrcString t)) LT = count_list (sourceItem i (SrcString [])) LT"
  "count_list (sourceItem i (SrcString t)) GT = count_list (sourceItem i (SrcString [])) GT"
  "count_list (sourceItem i (SrcObject (Some t) d ty)) LT
     = count_list (sourceItem i (SrcObject None d ty)) LT"
  "count_list (sourceItem i (SrcObject (Some t) d ty)) GT
     = count_list (sourceItem i (SrcObject None d ty)) GT"
  by (simp_all add: sourceItem_def Let_def count_escapeHtml)

lemma sourceItem_amp:
  "ampEscaped (sourceDocument src) \<Longrightarrow> ampEscaped (sourceItem i src)"
  unfolding sourceItem_def Let_def
  by (intro ampEscaped_append ampEscaped_escapeHtmlOpt ampEscaped_no_amp [OF showNat_no_amp];
      (assumption | code_simp))

lemma sourceItem_string_amp: "ampEscaped (sourceItem i (SrcString t))"
proof -
  have "ampEscaped (asc ''Unknown document'')" by code_simp
  then show ?thesis by (intro sourceItem_amp) simp
qed

lemma formatAnswer_escaped:
  "formatAnswer t =
     (case formatKind (answerLines t) of
        OrderedList \<Rightarrow>
          asc ''<ol>''
          @ concat (map (\<lambda>l. asc ''<li>'' @ escapeHtml (trim (replaceOrdinal l)) @ asc ''</li>'')
              (answerLines t))
          @ asc ''</ol>''
      | UnorderedList \<Rightarrow>
          asc ''<ul>''
          @ concat (map (\<lambda>l. asc ''<li>'' @ escapeHtml (trim (replaceBullet l)) @ asc ''</li>'')
              (answerLines t))
          @ asc ''</ul>''
      | Prose \<Rightarrow>
          concat (map (\<lambda>l. asc ''<p>'' @ escapeHtml l @ asc ''</p>'') (answerLines t)))"
proof -
  have "orderedItem = (\<lambda>l. asc ''<li>'' @ escapeHtml (trim (replaceOrdinal l)) @ asc ''</li>'')"
    "bulletItem = (\<lambda>l. asc ''<li>'' @ escapeHtml (trim (replaceBullet l)) @ asc ''</li>'')"
    "proseParagraph = (\<lambda>l. asc ''<p>'' @ escapeHtml l @ asc ''</p>'')"
    by (rule ext, simp only: orderedItem_def bulletItem_def proseParagraph_def)+
  then show ?thesis by (simp only: formatAnswer_kind)
qed

text \<open>
  Claim C10. \<open>escapeHtml\<close> leaves no \<open><\<close> and no \<open>>\<close> in a text, and every \<open>&\<close> of its result
  starts one of the references \<open>&amp;\<close>, \<open>&nbsp;\<close>, \<open>&lt;\<close>, \<open>&gt;\<close>. The markup of a user
  message is its template with the escaped question text in the paragraph; the markup of
  an answer is made of its tags and the escaped text of each line or list item; the entry
  of a source is its template with the escaped text of the source in the text element. So
  the numbers of \<open><\<close> and of \<open>>\<close> in the markup are those of the template, whatever the
  text is, and every \<open>&\<close> of the markup starts a reference (for the entry of a source, where
  its document name, which is not escaped, has this property).
\<close>

theorem escapeHtml_applied:
  \<open>count_list (escapeHtml t) LT = 0 \<and> count_list (escapeHtml t) GT = 0
   \<and> ampEscaped (escapeHtml t)
   \<and> userMessageHtml t =
       asc (''\<newline>        <div class="message-avatar">''
         @ ''\<newline>            <svg width="24" height="24" viewBox="0 0 24 24" fill="none">''
         @ ''\<newline>                <circle cx="12" cy="12" r="10" stroke="currentColor" stroke-width="2"/>''
         @ ''\<newline>                <circle cx="12" cy="10" r="3" fill="currentColor"/>''
         @ ''\<newline>                <path d="M6 20C6 16 8 14 12 14C16 14 18 16 18 20" stroke="currentColor" stroke-width="2" stroke-linecap="round"/>''
         @ ''\<newline>            </svg>''
         @ ''\<newline>        </div>''
         @ ''\<newline>        <div class="message-content">''
         @ ''\<newline>            <div class="message-text">''
         @ ''\<newline>                <p>'')
       @ escapeHtml t
       @ asc (''</p>''
         @ ''\<newline>            </div>''
         @ ''\<newline>        </div>''
         @ ''\<newline>    '')
   \<and> count_list (userMessageHtml t) LT = count_list (userMessageHtml []) LT
   \<and> count_list (userMessageHtml t) GT = count_list (userMessageHtml []) GT
   \<and> ampEscaped (userMessageHtml t)
   \<and> formatAnswer t =
     (case formatKind (answerLines t) of
        OrderedList \<Rightarrow>
          asc ''<ol>''
          @ concat (map (\<lambda>l. asc ''<li>'' @ escapeHtml (trim (replaceOrdinal l)) @ asc ''</li>'')
              (answerLines t))
          @ asc ''</ol>''
      | UnorderedList \<Rightarrow>
          asc ''<ul>''
          @ concat (map (\<lambda>l. asc ''<li>'' @ escapeHtml (trim (replaceBullet l)) @ asc ''</li>'')
              (answerLines t))
          @ asc ''</ul>''
      | Prose \<Rightarrow>
          concat (map (\<lambda>l. asc ''<p>'' @ escapeHtml l @ asc ''</p>'') (answerLines t)))
   \<and> count_list (formatAnswer t) LT
       = 2 * length (answerLines t) + (if formatKind (answerLines t) = Prose then 0 else 2)
   \<and> count_list (formatAnswer t) GT
       = 2 * length (answerLines t) + (if formatKind (answerLines t) = Prose then 0 else 2)
   \<and> ampEscaped (formatAnswer t)
   \<and> sourceItem i (SrcString t) =
       asc (''\<newline>            <div class="source-chunk">''
         @ ''\<newline>                <div class="source-chunk-header">''
         @ ''\<newline>                    <span class="source-chunk-label">Chunk '')
       @ showNat (i + 1)
       @ asc (''</span>''
         @ ''\<newline>                    <span class="source-document-name">'')
       @ [0xD83D, 0xDCC4]
       @ asc '' ''
       @ asc ''Unknown document''
       @ asc (''</span>''
         @ ''\<newline>                </div>''
         @ ''\<newline>                <div class="source-chunk-text">'')
       @ escapeHtml t
       @ asc (''</div>''
         @ ''\<newline>            </div>''
         @ ''\<newline>        '')
   \<and> count_list (sourceItem i (SrcString t)) LT = count_list (sourceItem i (SrcString [])) LT
   \<and> count_list (sourceItem i (SrcString t)) GT = count_list (sourceItem i (SrcString [])) GT
   \<and> ampEscaped (sourceItem i (SrcString t))
   \<and> sourceItem i (SrcObject (Some t) d ty) =
       asc (''\<newline>            <div class="source-chunk">''
         @ ''\<newline>                <div class="source-chunk-header">''
         @ ''\<newline>                    <span class="source-chunk-label">Chunk '')
       @ showNat (i + 1)
       @ asc (''</span>''
         @ ''\<newline>                    <span class="source-document-name">'')
       @ [0xD83D, 0xDCC4]
       @ asc '' ''
       @ (case d of None \<Rightarrow> asc ''Unknown document''
          | Some n \<Rightarrow> if n = [] then asc ''Unknown document'' else n)
       @ asc (''</span>''
         @ ''\<newline>                </div>''
         @ ''\<newline>                <div class="source-chunk-text">'')
       @ escapeHtml t
       @ asc (''</div>''
         @ ''\<newline>            </div>''
         @ ''\<newline>        '')
   \<and> count_list (sourceItem i (SrcObject (Some t) d ty)) LT
       = count_list (sourceItem i (SrcObject None d ty)) LT
   \<and> count_list (sourceItem i (SrcObject (Some t) d ty)) GT
       = count_list (sourceItem i (SrcObject None d ty)) GT
   \<and> (ampEscaped (sourceDocument (SrcObject (Some t) d ty))
        \<longrightarrow> ampEscaped (sourceItem i (SrcObject (Some t) d ty)))\<close>
proof -
  have str: "sourceText (SrcString t) = Some t"
    "sourceDocument (SrcString t) = asc ''Unknown document''"
    by simp_all
  have obj: "sourceDocument (SrcObject (Some t) d ty)
      = (case d of None \<Rightarrow> asc ''Unknown document''
          | Some n \<Rightarrow> if n = [] then asc ''Unknown document'' else n)"
    "sourceText (SrcObject (Some t) d ty) = Some t"
    by (cases d; simp)+
  show ?thesis
    by (intro conjI impI;
        (rule ampEscaped_escapeHtml userMessageHtml_amp formatAnswer_amp sourceItem_string_amp
              formatAnswer_count count_escapeHtml userMessageHtml_count sourceItem_count
              formatAnswer_escaped
         | erule sourceItem_amp
         | simp only: userMessageHtml_def
         | simp only: sourceItem_def Let_def str obj escapeHtmlOpt.simps))
qed

theorem escapeHtml_applied_witness:
  \<open>escapeHtml ex_text = asc ''&lt;b&gt;Tom &amp; Jerry&lt;/b&gt;''
   \<and> count_list (userMessageHtml ex_text) LT = count_list (userMessageHtml []) LT
   \<and> formatAnswer ex_text = asc ''<p>&lt;b&gt;Tom &amp; Jerry&lt;/b&gt;</p>''
   \<and> count_list (formatAnswer ex_text) LT = 2
   \<and> ampEscaped (sourceDocument (SrcObject (Some ex_text) (Some (asc ''Guide'')) None))
   \<and> ampEscaped (sourceItem 0 (SrcObject (Some ex_text) (Some (asc ''Guide'')) None))
   \<and> userMessageHtml ex_text =
       asc (''\<newline>        <div class="message-avatar">''
         @ ''\<newline>            <svg width="24" height="24" viewBox="0 0 24 24" fill="none">''
         @ ''\<newline>                <circle cx="12" cy="12" r="10" stroke="currentColor" stroke-width="2"/>''
         @ ''\<newline>                <circle cx="12" cy="10" r="3" fill="currentColor"/>''
         @ ''\<newline>                <path d="M6 20C6 16 8 14 12 14C16 14 18 16 18 20" stroke="currentColor" stroke-width="2" stroke-linecap="round"/>''
         @ ''\<newline>            </svg>''
         @ ''\<newline>        </div>''
         @ ''\<newline>        <div class="message-content">''
         @ ''\<newline>            <div class="message-text">''
         @ ''\<newline>                <p>'')
       @ asc ''&lt;b&gt;Tom &amp; Jerry&lt;/b&gt;''
       @ asc (''</p>''
         @ ''\<newline>            </div>''
         @ ''\<newline>        </div>''
         @ ''\<newline>    '')
   \<and> sourceItem 0 (SrcString ex_text) =
       asc (''\<newline>            <div class="source-chunk">''
         @ ''\<newline>                <div class="source-chunk-header">''
         @ ''\<newline>                    <span class="source-chunk-label">Chunk '')
       @ asc ''1''
       @ asc (''</span>''
         @ ''\<newline>                    <span class="source-document-name">'')
       @ [0xD83D, 0xDCC4]
       @ asc '' ''
       @ asc ''Unknown document''
       @ asc (''</span>''
         @ ''\<newline>                </div>''
         @ ''\<newline>                <div class="source-chunk-text">'')
       @ asc ''&lt;b&gt;Tom &amp; Jerry&lt;/b&gt;''
       @ asc (''</div>''
         @ ''\<newline>            </div>''
         @ ''\<newline>        '')\<close>
proof -
  have e: "escapeHtml ex_text = asc ''&lt;b&gt;Tom &amp; Jerry&lt;/b&gt;''" by code_simp
  have f: "formatAnswer ex_text = asc ''<p>&lt;b&gt;Tom &amp; Jerry&lt;/b&gt;</p>''" by code_simp
  have k: "2 * length (answerLines ex_text)
            + (if formatKind (answerLines ex_text) = Prose then 0 else 2) = (2::nat)"
    by code_simp
  have d: "ampEscaped (sourceDocument (SrcObject (Some ex_text) (Some (asc ''Guide'')) None))"
    by code_simp
  have num: "showNat (0 + 1) = asc ''1''" by code_simp
  note t = escapeHtml_applied [where t = ex_text and i = 0 and d = "Some (asc ''Guide'')"
      and ty = None]
  from t have u: "count_list (userMessageHtml ex_text) LT = count_list (userMessageHtml []) LT"
    by blast
  from t have c: "count_list (formatAnswer ex_text) LT
       = 2 * length (answerLines ex_text)
         + (if formatKind (answerLines ex_text) = Prose then 0 else 2)"
    by blast
  from t d have s: "ampEscaped (sourceItem 0 (SrcObject (Some ex_text) (Some (asc ''Guide'')) None))"
    by blast
  note um = t [THEN conjunct2, THEN conjunct2, THEN conjunct2, THEN conjunct1]
  show ?thesis
    by (intro conjI, rule e, rule u, rule f, simp only: c k, rule d, rule s,
        simp only: um e,
        simp only: sourceItem_def Let_def sourceText.simps sourceDocument.simps orDefault.simps
          escapeHtmlOpt.simps e num)
qed

section \<open>Properties of the chat page\<close>

lemma ex_question_trim: "trim ex_question = asc ''Which documents are required?''"
  by code_simp

lemma ex_question_filled: "trim ex_question \<noteq> []"
  by code_simp

lemma storage_keys_distinct:
  "asc ''stb_session_token'' \<noteq> asc ''stb_user_name''"
  "asc ''stb_session_token'' \<noteq> asc ''stb_user_role''"
  "asc ''stb_user_name'' \<noteq> asc ''stb_user_role''"
  by (simp_all add: asc_def)

lemma handleSubmit_filled:
  "trim (questionValue s) \<noteq> [] \<Longrightarrow>
   handleSubmit res s =
     sendQuestion res (trim (questionValue s))
       (showLoading
          (setInputEnabled False
             ((addUserMessage (trim (questionValue s)) s)\<lparr>questionValue := []\<rparr>)))"
  by (simp add: handleSubmit_def Let_def)

lemma sendQuestion_401:
  "sendQuestion (Response 401 body) q s =
     s\<lparr>requests := requests s @ [askRequest s q], localStorage := Map.empty,
       href := asc ''login.html''\<rparr>"
  by (simp add: sendQuestion_def Let_def)

text \<open>
  Claim C1. Whatever its body is, a response with status 401 makes \<open>sendQuestion\<close> empty
  \<open>localStorage\<close> (the session token and the user data with it) and assign \<open>login.html\<close> to
  the address of the window, and adds no message to the chat; the result is the same as
  for a response with no readable body. After a submission that is answered by 401 the chat
  holds the question of the user as its only new message.
\<close>

theorem sendQuestion_unauthorized:
  "localStorage (sendQuestion (Response 401 body) q s) = Map.empty
   \<and> href (sendQuestion (Response 401 body) q s) = asc ''login.html''
   \<and> chatMessages (sendQuestion (Response 401 body) q s) = chatMessages s
   \<and> sendQuestion (Response 401 body) q s = sendQuestion (Response 401 None) q s
   \<and> (trim (questionValue s) \<noteq> [] \<longrightarrow>
        localStorage (handleSubmit (Response 401 body) s) = Map.empty
        \<and> href (handleSubmit (Response 401 body) s) = asc ''login.html''
        \<and> chatMessages (handleSubmit (Response 401 body) s) =
            chatMessages s @
              [\<lparr>className = asc ''message user-message'',
                innerHTML = userMessageHtml (trim (questionValue s)),
                sourceToggle = False, sourceVisible = False, arrow = []\<rparr>])"
  by (simp add: handleSubmit_filled sendQuestion_401 showLoading_def setInputEnabled_def
        addUserMessage_def)

theorem sendQuestion_unauthorized_witness:
  "trim (questionValue ex_page) \<noteq> []
   \<and> localStorage (handleSubmit (Response 401 (Some ex_body)) ex_page) (asc ''stb_session_token'')
       = None
   \<and> href (handleSubmit (Response 401 (Some ex_body)) ex_page) = asc ''login.html''
   \<and> length (chatMessages (handleSubmit (Response 401 (Some ex_body)) ex_page)) = 1"
proof -
  have q: "questionValue ex_page = ex_question" "chatMessages ex_page = []"
    by (simp_all add: ex_page_def)
  have f: "trim (questionValue ex_page) \<noteq> []"
    by (simp only: q ex_question_filled simp_thms)
  show ?thesis
    using f sendQuestion_unauthorized [of "Some ex_body" "[]" ex_page] q
    by simp
qed

text \<open>
  Claim C4, as amended. For a question that is empty or only white space \<open>handleSubmit\<close>
  returns at once: no request is sent, and nothing is displayed; the page is left exactly as
  it was, with no user message and no error message.
\<close>

theorem handleSubmit_blank:
  "trim (questionValue s) = [] \<longrightarrow> handleSubmit res s = s"
  by (simp add: handleSubmit_def)

theorem handleSubmit_blank_witness:
  "trim (questionValue ex_blank_page) = []
   \<and> handleSubmit (Response 200 (Some ex_body)) ex_blank_page = ex_blank_page"
proof -
  have b: "trim (asc ''   '') = []" by code_simp
  have f: "trim (questionValue ex_blank_page) = []"
    by (simp add: ex_blank_page_def b)
  show ?thesis
    using f handleSubmit_blank [of ex_blank_page "Response 200 (Some ex_body)"] by blast
qed

text \<open>
  Claim C4 as stated says that the rejection is surfaced as a client error. After a blank
  submission the chat is as empty as before and no request has been sent: the page shows
  nothing.
\<close>

theorem handleSubmit_blank_silent_counterexample:
  "questionValue ex_blank_page = asc ''   ''
   \<and> chatMessages ex_blank_page = []
   \<and> chatMessages (handleSubmit NetworkError ex_blank_page) = []
   \<and> requests (handleSubmit NetworkError ex_blank_page) = []
   \<and> href (handleSubmit NetworkError ex_blank_page) = href ex_blank_page"
proof -
  have b: "trim (asc ''   '') = []" by code_simp
  have t: "asc ''tok-1'' \<noteq> []" by (simp add: asc_def)
  have h: "handleSubmit NetworkError ex_blank_page = ex_blank_page"
    by (simp add: handleSubmit_def ex_blank_page_def b)
  show ?thesis
    unfolding h using t
    by (simp add: ex_blank_page_def ex_page_def checkAuthentication_def Let_def)
qed

lemma sessionToken_sendQuestion: "sessionToken (sendQuestion res q s) = sessionToken s"
  by (cases res)
     (auto simp: sendQuestion_def Let_def sendQuestionCatch_def setInputEnabled_def
        addErrorMessage_def hideLoading_def addAssistantMessage_def split: option.splits)

lemma sessionToken_handleSubmit: "sessionToken (handleSubmit res s) = sessionToken s"
  by (cases "trim (questionValue s) = []")
     (simp_all add: handleSubmit_def Let_def sessionToken_sendQuestion showLoading_def
        setInputEnabled_def addUserMessage_def)

lemma requests_sendQuestion: "requests (sendQuestion res q s) = requests s @ [askRequest s q]"
  by (cases res)
     (auto simp: sendQuestion_def Let_def sendQuestionCatch_def setInputEnabled_def
        addErrorMessage_def hideLoading_def addAssistantMessage_def split: option.splits)

lemma ok_200: "ok 200"
  by (simp add: ok_def)

text \<open>
  Claim C5, as amended. The token of the page is what \<open>checkAuthentication\<close> reads from
  \<open>localStorage\<close> under \<open>stb_session_token\<close> when the page loads, and no submission changes
  it. A blank submission sends nothing. A submission with a question that is not blank
  sends one request: a POST to the address of the API, with the header \<open>Authorization\<close> made
  of \<open>Bearer\<close> and that token (the word \<open>null\<close> where none was stored at page load), and a
  body whose only field \<open>question\<close> is the trimmed question. On a response with status 200
  the chat gains the question and then one assistant message, whose markup is the template
  filled with the formatted \<open>answer\<close>, the badge of \<open>confidence\<close> and \<open>confidence_label\<close>, and
  the section of \<open>sources\<close> (nothing where they are missing or empty) of the response body.
\<close>

theorem ask_request_shape:
  \<open>sessionToken (checkAuthentication p) = localStorage p (asc ''stb_session_token'')
   \<and> sessionToken (handleSubmit res s) = sessionToken s
   \<and> (trim (questionValue s) = [] \<longrightarrow> requests (handleSubmit res s) = requests s)
   \<and> (trim (questionValue s) \<noteq> [] \<longrightarrow>
        requests (handleSubmit res s) =
          requests s @
            [\<lparr>req_url =
                (if includesStr (origin s) (asc ''localhost'') then asc ''/api/ask''
                 else asc ''http://localhost:8000/api/ask''),
              req_method = asc ''POST'',
              req_headers =
                [(asc ''Content-Type'', asc ''application/json''),
                 (asc ''Authorization'',
                  asc ''Bearer '' @ (case sessionToken s of None \<Rightarrow> asc ''null'' | Some t \<Rightarrow> t))],
              req_body = [(asc ''question'', trim (questionValue s))]\<rparr>])
   \<and> (trim (questionValue s) \<noteq> [] \<longrightarrow>
        chatMessages (handleSubmit (Response 200 (Some data)) s) =
          chatMessages s @
            [\<lparr>className = asc ''message user-message'',
              innerHTML = userMessageHtml (trim (questionValue s)),
              sourceToggle = False, sourceVisible = False, arrow = []\<rparr>,
             \<lparr>className = asc ''message assistant-message'',
              innerHTML =
                asc (''\<newline>        <div class="message-avatar">''
                  @ ''\<newline>            <svg width="24" height="24" viewBox="0 0 24 24" fill="none">''
                  @ ''\<newline>                <circle cx="12" cy="12" r="10" stroke="currentColor" stroke-width="2"/>''
                  @ ''\<newline>                <path d="M8 14C8 14 9.5 16 12 16C14.5 16 16 14 16 14" stroke="currentColor" stroke-width="2" stroke-linecap="round"/>''
                  @ ''\<newline>                <circle cx="9" cy="9" r="1.5" fill="currentColor"/>''
                  @ ''\<newline>                <circle cx="15" cy="9" r="1.5" fill="currentColor"/>''
                  @ ''\<newline>            </svg>''
                  @ ''\<newline>        </div>''
                  @ ''\<newline>        <div class="message-content">''
                  @ ''\<newline>            <div class="message-text">''
                  @ ''\<newline>                '')
                @ formatAnswer (answer data)
                @ asc (''\<newline>            </div>''
                  @ ''\<newline>            '')
                @ createConfidenceBadge (confidence data) (confidence_label data)
                @ asc ''\<newline>            ''
                @ (case sources data of None \<Rightarrow> []
                   | Some ss \<Rightarrow> if ss = [] then [] else createSourcesHtml ss)
                @ asc (''\<newline>        </div>''
                  @ ''\<newline>    ''),
              sourceToggle = (case sources data of None \<Rightarrow> False | Some ss \<Rightarrow> ss \<noteq> []),
              sourceVisible = False,
              arrow =
                (case sources data of None \<Rightarrow> []
                 | Some ss \<Rightarrow> if ss = [] then [] else [0x25B6])\<rparr>])\<close>
proof (intro conjI impI, goal_cases)
  case 1
  show ?case by (simp add: checkAuthentication_def Let_def)
next
  case 2
  show ?case by (rule sessionToken_handleSubmit)
next
  case 3
  then show ?case by (simp add: handleSubmit_def)
next
  case 4
  then show ?case
    by (simp add: handleSubmit_filled requests_sendQuestion askRequest_def ASK_API_URL_def
          showLoading_def setInputEnabled_def addUserMessage_def)
next
  case 5
  then have "chatMessages (handleSubmit (Response 200 (Some data)) s) =
      chatMessages s @
        [\<lparr>className = asc ''message user-message'',
          innerHTML = userMessageHtml (trim (questionValue s)),
          sourceToggle = False, sourceVisible = False, arrow = []\<rparr>,
         assistantMessage (answer data) (confidence data) (confidence_label data)
           (sources data)]"
    using ok_200
    by (simp add: handleSubmit_filled sendQuestion_def Let_def showLoading_def
          setInputEnabled_def addUserMessage_def addAssistantMessage_def hideLoading_def)
  moreover have "sourcesHtml (sources data)
      = (case sources data of None \<Rightarrow> []
         | Some ss \<Rightarrow> if ss = [] then [] else createSourcesHtml ss)"
    by (cases "sources data") (simp_all add: sourcesHtml_def)
  moreover have "hasSources (sources data)
      = (case sources data of None \<Rightarrow> False | Some ss \<Rightarrow> ss \<noteq> [])"
    by (cases "sources data") simp_all
  moreover have "(if hasSources (sources data) then [0x25B6] else [])
      = (case sources data of None \<Rightarrow> []
         | Some ss \<Rightarrow> if ss = [] then [] else [0x25B6::jschar])"
    by (cases "sources data") simp_all
  ultimately show ?case
    by (simp only: assistantMessage_def assistantMessageHtml_def)
qed

theorem ask_request_shape_witness:
  \<open>sessionToken (checkAuthentication ex_page) = Some (asc ''tok-1'')
   \<and> trim (questionValue (checkAuthentication ex_page)) \<noteq> []
   \<and> requests (handleSubmit (Response 200 (Some ex_body)) (checkAuthentication ex_page)) =
        [\<lparr>req_url = asc ''/api/ask'',
          req_method = asc ''POST'',
          req_headers =
            [(asc ''Content-Type'', asc ''application/json''),
             (asc ''Authorization'', asc ''Bearer tok-1'')],
          req_body = [(asc ''question'', asc ''Which documents are required?'')]\<rparr>]
   \<and> map innerHTML
        (chatMessages (handleSubmit (Response 200 (Some ex_body)) (checkAuthentication ex_page)))
       = [
        asc (''\<newline>        <div class="message-avatar">''
          @ ''\<newline>            <svg width="24" height="24" viewBox="0 0 24 24" fill="none">''
          @ ''\<newline>                <circle cx="12" cy="12" r="10" stroke="currentColor" stroke-width="2"/>''
          @ ''\<newline>                <circle cx="12" cy="10" r="3" fill="currentColor"/>''
          @ ''\<newline>                <path d="M6 20C6 16 8 14 12 14C16 14 18 16 18 20" stroke="currentColor" stroke-width="2" stroke-linecap="round"/>''
          @ ''\<newline>            </svg>''
          @ ''\<newline>        </div>''
          @ ''\<newline>        <div class="message-content">''
          @ ''\<newline>            <div class="message-text">''
          @ ''\<newline>                <p>'')
        @ asc ''Which documents are required?''
        @ asc (''</p>''
          @ ''\<newline>            </div>''
          @ ''\<newline>        </div>''
          @ ''\<newline>    ''),
        asc (''\<newline>        <div class="message-avatar">''
          @ ''\<newline>            <svg width="24" height="24" viewBox="0 0 24 24" fill="none">''
          @ ''\<newline>                <circle cx="12" cy="12" r="10" stroke="currentColor" stroke-width="2"/>''
          @ ''\<newline>                <path d="M8 14C8 14 9.5 16 12 16C14.5 16 16 14 16 14" stroke="currentColor" stroke-width="2" stroke-linecap="round"/>''
          @ ''\<newline>                <circle cx="9" cy="9" r="1.5" fill="currentColor"/>''
          @ ''\<newline>                <circle cx="15" cy="9" r="1.5" fill="currentColor"/>''
          @ ''\<newline>            </svg>''
          @ ''\<newline>        </div>''
          @ ''\<newline>        <div class="message-content">''
          @ ''\<newline>            <div class="message-text">''
          @ ''\<newline>                '')
        @ asc ''<ol><li>A</li><li>Note</li></ol>''
        @ asc (''\<newline>            </div>''
          @ ''\<newline>            '')
        @ (asc ''\<newline>        <div class="confidence-badge ''
          @ asc ''confidence-high''
          @ asc (''">''
            @ ''\<newline>            <span class="confidence-icon">'')
          @ [0x2713]
          @ asc (''</span>''
            @ ''\<newline>            <span class="confidence-text">Confidence: '')
          @ asc ''87''
          @ asc (''%</span>''
            @ ''\<newline>            <span class="confidence-label">('')
          @ asc ''high''
          @ asc ('')</span>''
            @ ''\<newline>        </div>''
            @ ''\<newline>    ''))
        @ asc ''\<newline>            ''
        @ (asc (''\<newline>        <div class="source-chunks">''
            @ ''\<newline>            <button class="source-toggle">''
            @ ''\<newline>                <span class="arrow">'')
          @ [0x25B6]
          @ asc (''</span>''
            @ ''\<newline>                View '')
          @ asc ''2''
          @ asc '' source ''
          @ asc ''chunks''
          @ asc (''\<newline>            </button>''
            @ ''\<newline>            <div class="source-content">''
            @ ''\<newline>                '')
          @ ((asc (''\<newline>            <div class="source-chunk">''
              @ ''\<newline>                <div class="source-chunk-header">''
              @ ''\<newline>                    <span class="source-chunk-label">Chunk '')
            @ asc ''1''
            @ asc (''</span>''
              @ ''\<newline>                    <span class="source-document-name">'')
            @ [0xD83D, 0xDCC4]
            @ asc '' ''
            @ asc ''Unknown document''
            @ asc (''</span>''
              @ ''\<newline>                </div>''
              @ ''\<newline>                <div class="source-chunk-text">'')
            @ asc ''a''
            @ asc (''</div>''
              @ ''\<newline>            </div>''
              @ ''\<newline>        ''))
            @ (asc (''\<newline>            <div class="source-chunk">''
              @ ''\<newline>                <div class="source-chunk-header">''
              @ ''\<newline>                    <span class="source-chunk-label">Chunk '')
            @ asc ''2''
            @ asc (''</span>''
              @ ''\<newline>                    <span class="source-document-name">'')
            @ [0xD83D, 0xDCC4]
            @ asc '' ''
            @ asc ''Guide''
            @ asc (''</span>''
              @ ''\<newline>                </div>''
              @ ''\<newline>                <div class="source-chunk-text">'')
            @ asc ''b''
            @ asc (''</div>''
              @ ''\<newline>            </div>''
              @ ''\<newline>        '')))
          @ asc (''\<newline>            </div>''
            @ ''\<newline>        </div>''
            @ ''\<newline>    ''))
        @ asc (''\<newline>        </div>''
          @ ''\<newline>    '')]\<close>
proof -
  have t: "asc ''tok-1'' \<noteq> []" by (simp add: asc_def)
  have s: "sessionToken (checkAuthentication ex_page) = Some (asc ''tok-1'')"
    "questionValue (checkAuthentication ex_page) = ex_question"
    "requests (checkAuthentication ex_page) = []"
    "chatMessages (checkAuthentication ex_page) = []"
    "origin (checkAuthentication ex_page) = asc ''http://localhost:8000''"
    using t by (simp_all add: checkAuthentication_def Let_def ex_page_def storage_keys_distinct)
  have f: "trim (questionValue (checkAuthentication ex_page)) \<noteq> []"
    by (simp only: s ex_question_filled simp_thms)
  have url: "includesStr (asc ''http://localhost:8000'') (asc ''localhost'')" by code_simp
  have bearer: "asc ''Bearer '' @ asc ''tok-1'' = asc ''Bearer tok-1''" by (simp add: asc_def)
  note inst = ask_request_shape [where p = ex_page and s = "checkAuthentication ex_page"
      and res = "Response 200 (Some ex_body)" and data = ex_body]
  note req = inst [THEN conjunct2, THEN conjunct2, THEN conjunct2, THEN conjunct1, THEN mp, OF f]
  note chat = inst [THEN conjunct2, THEN conjunct2, THEN conjunct2, THEN conjunct2, THEN mp, OF f]
  have body: "answer ex_body = ex_ordered" "confidence ex_body = 87"
    "confidence_label ex_body = asc ''high''" "sources ex_body = Some ex_sources"
    by (simp_all add: ex_body_def)
  have ans: "formatAnswer ex_ordered = asc ''<ol><li>A</li><li>Note</li></ol>''" by code_simp
  have usr: "escapeHtml (asc ''Which documents are required?'')
      = asc ''Which documents are required?''"
    by code_simp
  have num: "showInt 87 = asc ''87''" "showNat 2 = asc ''2''" "showNat (0 + 1) = asc ''1''"
    "showNat (1 + 1) = asc ''2''"
    by code_simp+
  have len: "length ex_sources = 2" "[0..<2] = [0, 1]" "(2::nat) = 1 \<longleftrightarrow> False"
    "ex_sources = [] \<longleftrightarrow> False"
    by (simp_all add: ex_sources_def upt_rec)
  have nth: "ex_sources ! 0 = SrcString (asc ''a'')"
    "ex_sources ! 1 = SrcObject (Some (asc ''b'')) (Some (asc ''Guide'')) (Some (asc ''procedure''))"
    by (simp_all add: ex_sources_def)
  have esc: "escapeHtml (asc ''a'') = asc ''a''" "escapeHtml (asc ''b'') = asc ''b''"
    "asc ''Guide'' = [] \<longleftrightarrow> False"
    by (simp_all add: escapeHtml_def escapeChar_def asc_def AMP_def NBSP_def LT_def GT_def)
  show ?thesis
    apply (intro conjI)
       apply (rule s(1))
      apply (rule f)
     apply (simp only: req s ex_question_trim url bearer if_True option.case append_Nil)
    apply (simp only: chat s ex_question_trim body ans usr num len nth esc
        list.map message.select_convs append_Nil option.case if_True if_False
        userMessageHtml_def createConfidenceBadge_def colorClass_values icon_values
        createSourcesHtml_def sourceItems_nth sourceItem_def Let_def concat.simps
        sourceText.simps sourceDocument.simps orDefault.simps escapeHtmlOpt.simps
        append_Nil2 append_assoc)
    done
qed

text \<open>
  Claim C5 as stated says that every request carries the stored session token. A page loaded
  with no token in \<open>localStorage\<close> still sends the question, with the header
  \<open>Authorization: Bearer null\<close>.
\<close>

theorem ask_request_no_token_counterexample:
  "localStorage (checkAuthentication ex_signed_out_page) (asc ''stb_session_token'') = None
   \<and> sessionToken (checkAuthentication ex_signed_out_page) = None
   \<and> map req_headers
        (requests (handleSubmit NetworkError (checkAuthentication ex_signed_out_page)))
       = [[(asc ''Content-Type'', asc ''application/json''),
           (asc ''Authorization'', asc ''Bearer null'')]]"
proof -
  have s: "sessionToken (checkAuthentication ex_signed_out_page) = None"
    "localStorage (checkAuthentication ex_signed_out_page) (asc ''stb_session_token'') = None"
    "questionValue (checkAuthentication ex_signed_out_page) = ex_question"
    "requests (checkAuthentication ex_signed_out_page) = []"
    by (simp_all add: checkAuthentication_def Let_def ex_signed_out_page_def ex_page_def)
  have f: "trim (questionValue (checkAuthentication ex_signed_out_page)) \<noteq> []"
    by (simp only: s ex_question_filled simp_thms)
  have bearer: "asc ''Bearer '' @ asc ''null'' = asc ''Bearer null''" by (simp add: asc_def)
  show ?thesis
    using s bearer
    by (simp add: handleSubmit_filled [OF f] requests_sendQuestion askRequest_def
          showLoading_def setInputEnabled_def addUserMessage_def)
qed

section \<open>Properties of the login page\<close>

lemma ex_email_filled: "trim (asc '' amira@stb.tn '') \<noteq> []"
  by code_simp

lemma handleLogin_response:
  "trim (emailValue s) \<noteq> [] \<Longrightarrow> passwordValue s \<noteq> [] \<Longrightarrow>
   handleLogin (Response status (Some data)) s =
     (let s1 = hideError (setFormEnabled False s);
          s2 = s1\<lparr>requests := requests s1 @ [loginRequest s1 (trim (emailValue s)) (passwordValue s)]\<rparr>
      in if ok status \<and> success data
         then
           let s3 = setItem (asc ''stb_session_token'') (session_token data) s2
           in (case user data of
                 None \<Rightarrow> handleLoginCatch s3
               | Some (name, role) \<Rightarrow>
                   (showSuccess
                      (asc ''Connexion r'' @ [0x00E9] @ asc ''ussie! Redirection...'')
                      (setItem (asc ''stb_user_role'') role
                         (setItem (asc ''stb_user_name'') name s3)))
                   \<lparr>timers := timers s3 @ [(1000, asc ''index.html'')]\<rparr>)
         else
           setFormEnabled True
             (showError
                (orDefault (message data) (asc ''Email ou mot de passe incorrect''))
                s2))"
  by (simp add: handleLogin_def Let_def)

lemma handleLogin_no_json:
  "trim (emailValue s) \<noteq> [] \<Longrightarrow> passwordValue s \<noteq> [] \<Longrightarrow>
   handleLogin (Response status None) s =
     (let s1 = hideError (setFormEnabled False s)
      in handleLoginCatch
           (s1\<lparr>requests := requests s1 @ [loginRequest s1 (trim (emailValue s)) (passwordValue s)]\<rparr>))"
  by (simp add: handleLogin_def Let_def)

text \<open>
  Claim C6. When the form is filled and the response is OK with \<open>success\<close> true, a session
  token and a user with name and role, \<open>handleLogin\<close> stores these three values under the
  keys \<open>stb_session_token\<close>, \<open>stb_user_name\<close> and \<open>stb_user_role\<close> and changes no other key
  of \<open>localStorage\<close>. It schedules the navigation to \<open>index.html\<close> after 1000 ms; the address
  of the window is unchanged until that timer runs, and is \<open>index.html\<close> once it has.
\<close>

theorem handleLogin_success:
  assumes "trim (emailValue s) \<noteq> []" and "passwordValue s \<noteq> []"
    and "ok status" and "success data"
    and "session_token data = Some t" and "user data = Some (Some n, Some r)"
  shows "localStorage (handleLogin (Response status (Some data)) s) =
           (localStorage s)(asc ''stb_session_token'' \<mapsto> t, asc ''stb_user_name'' \<mapsto> n,
              asc ''stb_user_role'' \<mapsto> r)
         \<and> timers (handleLogin (Response status (Some data)) s) =
             timers s @ [(1000, asc ''index.html'')]
         \<and> href (handleLogin (Response status (Some data)) s) = href s
         \<and> (timers s = [] \<longrightarrow>
              href (fireTimer (handleLogin (Response status (Some data)) s)) = asc ''index.html'')"
  using assms
  by (simp add: handleLogin_response Let_def setItem_def showSuccess_def hideError_def
        setFormEnabled_def fireTimer_def)

theorem handleLogin_success_witness:
  "trim (emailValue ex_login_page) \<noteq> [] \<and> passwordValue ex_login_page \<noteq> []
   \<and> ok 200 \<and> success ex_login_ok
   \<and> localStorage (handleLogin (Response 200 (Some ex_login_ok)) ex_login_page)
        (asc ''stb_session_token'') = Some (asc ''tok-1'')
   \<and> localStorage (handleLogin (Response 200 (Some ex_login_ok)) ex_login_page)
        (asc ''stb_user_name'') = Some (asc ''Amira'')
   \<and> localStorage (handleLogin (Response 200 (Some ex_login_ok)) ex_login_page)
        (asc ''stb_user_role'') = Some (asc ''agent'')
   \<and> href (fireTimer (handleLogin (Response 200 (Some ex_login_ok)) ex_login_page))
       = asc ''index.html''"
proof -
  have e: "trim (emailValue ex_login_page) \<noteq> []"
    by (simp add: ex_login_page_def ex_email_filled)
  have p: "passwordValue ex_login_page \<noteq> []"
    by (simp add: ex_login_page_def asc_def)
  have o: "ok 200" "success ex_login_ok" "session_token ex_login_ok = Some (asc ''tok-1'')"
    "user ex_login_ok = Some (Some (asc ''Amira''), Some (asc ''agent''))"
    by (simp_all add: ok_def ex_login_ok_def)
  have t: "timers ex_login_page = []" by (simp add: ex_login_page_def)
  show ?thesis
    using e p o t handleLogin_success [OF e p o] storage_keys_distinct
    by simp
qed

text \<open>
  Claim C7. When the form is filled and the response is not OK or its \<open>success\<close> is false,
  \<open>handleLogin\<close> leaves \<open>localStorage\<close> as it was, shows the message of the response, or
  \<open>Email ou mot de passe incorrect\<close> where the response has no message or an empty one,
  enables the two inputs and the button again, and neither changes the address of the window
  nor schedules a navigation. The same holds, with the fixed message of the \<open>catch\<close> block
  (\<open>Erreur de connexion.\<close> and the request to try again), for a response whose body is not
  JSON.
\<close>

theorem handleLogin_failure:
  assumes "trim (emailValue s) \<noteq> []" and "passwordValue s \<noteq> []"
  shows "(\<not> (ok status \<and> success data) \<longrightarrow>
            localStorage (handleLogin (Response status (Some data)) s) = localStorage s
            \<and> errorText (handleLogin (Response status (Some data)) s)
                = orDefault (message data) (asc ''Email ou mot de passe incorrect'')
            \<and> errorVisible (handleLogin (Response status (Some data)) s)
            \<and> \<not> emailDisabled (handleLogin (Response status (Some data)) s)
            \<and> \<not> passwordDisabled (handleLogin (Response status (Some data)) s)
            \<and> \<not> loginDisabled (handleLogin (Response status (Some data)) s)
            \<and> buttonText (handleLogin (Response status (Some data)) s) = asc ''Se connecter''
            \<and> href (handleLogin (Response status (Some data)) s) = href s
            \<and> timers (handleLogin (Response status (Some data)) s) = timers s)
         \<and> (m \<noteq> [] \<longrightarrow> orDefault (Some m) (asc ''Email ou mot de passe incorrect'') = m)
         \<and> orDefault None (asc ''Email ou mot de passe incorrect'')
             = asc ''Email ou mot de passe incorrect''
         \<and> orDefault (Some []) (asc ''Email ou mot de passe incorrect'')
             = asc ''Email ou mot de passe incorrect''
         \<and> localStorage (handleLogin (Response status None) s) = localStorage s
         \<and> errorText (handleLogin (Response status None) s)
             = asc ''Erreur de connexion. Veuillez r'' @ [0x00E9] @ asc ''essayer.''
         \<and> errorVisible (handleLogin (Response status None) s)
         \<and> \<not> emailDisabled (handleLogin (Response status None) s)
         \<and> \<not> passwordDisabled (handleLogin (Response status None) s)
         \<and> \<not> loginDisabled (handleLogin (Response status None) s)
         \<and> buttonText (handleLogin (Response status None) s) = asc ''Se connecter''
         \<and> href (handleLogin (Response status None) s) = href s
         \<and> timers (handleLogin (Response status None) s) = timers s"
proof -
  have a: "\<not> (ok status \<and> success data) \<Longrightarrow>
      handleLogin (Response status (Some data)) s =
        setFormEnabled True
          (showError (orDefault (message data) (asc ''Email ou mot de passe incorrect''))
             ((hideError (setFormEnabled False s))
                \<lparr>requests := requests (hideError (setFormEnabled False s))
                    @ [loginRequest (hideError (setFormEnabled False s))
                         (trim (emailValue s)) (passwordValue s)]\<rparr>))"
    using assms
    by (cases "ok status"; cases "success data"; simp add: handleLogin_response Let_def)
  have b: "handleLogin (Response status None) s =
        handleLoginCatch
          ((hideError (setFormEnabled False s))
             \<lparr>requests := requests (hideError (setFormEnabled False s))
                 @ [loginRequest (hideError (setFormEnabled False s))
                      (trim (emailValue s)) (passwordValue s)]\<rparr>)"
    using assms by (simp add: handleLogin_no_json Let_def)
  show ?thesis
    unfolding b
    by (intro conjI impI;
        simp add: a handleLoginCatch_def setFormEnabled_def showError_def hideError_def)
qed

theorem handleLogin_failure_witness:
  "trim (emailValue ex_login_page) \<noteq> [] \<and> passwordValue ex_login_page \<noteq> []
   \<and> \<not> (ok 401 \<and> success ex_login_refused)
   \<and> localStorage (handleLogin (Response 401 (Some ex_login_refused)) ex_login_page)
       = localStorage ex_login_page
   \<and> errorText (handleLogin (Response 401 (Some ex_login_refused)) ex_login_page)
       = asc ''Compte inconnu''
   \<and> \<not> loginDisabled (handleLogin (Response 401 (Some ex_login_refused)) ex_login_page)
   \<and> href (handleLogin (Response 401 (Some ex_login_refused)) ex_login_page)
       = href ex_login_page
   \<and> timers (handleLogin (Response 401 (Some ex_login_refused)) ex_login_page) = []"
proof -
  have e: "trim (emailValue ex_login_page) \<noteq> []"
    by (simp add: ex_login_page_def ex_email_filled)
  have p: "passwordValue ex_login_page \<noteq> []"
    by (simp add: ex_login_page_def asc_def)
  have f: "\<not> (ok 401 \<and> success ex_login_refused)"
    by (simp add: ex_login_refused_def)
  have m: "asc ''Compte inconnu'' \<noteq> []" "message ex_login_refused = Some (asc ''Compte inconnu'')"
    by (simp_all add: asc_def ex_login_refused_def)
  have t: "timers ex_login_page = []" by (simp add: ex_login_page_def)
  show ?thesis
    using e p f m t
      handleLogin_failure [OF e p, of 401 ex_login_refused "asc ''Compte inconnu''"]
    by simp
qed

end
